theory Spec2Isabelle
  imports Complex_Main
begin

section \<open>The player state machine of player.c\<close>

text \<open>
  A shallow embedding of \<^verbatim>\<open>src/raylib_animated_fsm/src/player.c\<close>: the per-state event
  handlers, the Entry, Update and Exit hooks, and the state table built by
  \<^verbatim>\<open>InitPlayerFSM\<close>. Every C function that mutates the player through its pointer becomes
  a function from the player to the updated player. C \<^verbatim>\<open>float\<close> values are idealised as
  \<^typ>\<open>real\<close> (no rounding, no NaN), C \<^verbatim>\<open>int\<close> values as \<^typ>\<open>int\<close>.
\<close>

subsection \<open>Enumerations\<close>

datatype State =
    STATE_IDLE
  | STATE_WALKING
  | STATE_MOVING_UP
  | STATE_MOVING_DOWN
  | STATE_MOVING_LEFT
  | STATE_MOVING_RIGHT
  | STATE_MOVING_UP_LEFT
  | STATE_MOVING_UP_RIGHT
  | STATE_MOVING_DOWN_LEFT
  | STATE_MOVING_DOWN_RIGHT
  | STATE_ATTACKING
  | STATE_SHIELD
  | STATE_DEAD
  | STATE_RESPAWN
  | STATE_COLLISION

datatype Event =
    EVENT_NONE
  | EVENT_MOVE
  | EVENT_MOVE_UP
  | EVENT_MOVE_DOWN
  | EVENT_MOVE_LEFT
  | EVENT_MOVE_RIGHT
  | EVENT_MOVE_UP_LEFT
  | EVENT_MOVE_UP_RIGHT
  | EVENT_MOVE_DOWN_LEFT
  | EVENT_MOVE_DOWN_RIGHT
  | EVENT_ATTACK
  | EVENT_DEFEND
  | EVENT_SHIELD
  | EVENT_DIE
  | EVENT_RESPAWN
  | EVENT_COLLISION_START
  | EVENT_COLLISION_END
  | EVENT_COUNT

subsection \<open>Data\<close>

record Vector2 =
  vec_x :: real
  vec_y :: real

text \<open>A sprite-sheet region \<^verbatim>\<open>{x, y, width, height}\<close> and an RGBA colour.\<close>

type_synonym Rectangle = "real \<times> real \<times> real \<times> real"

type_synonym Color = "nat \<times> nat \<times> nat \<times> nat"

text \<open>The cute\_c2 circle: centre \<^verbatim>\<open>p\<close> and radius \<^verbatim>\<open>r\<close>.\<close>

record c2Circle =
  c_p :: Vector2
  c_r :: real

text \<open>
  The animation cursor. player.c reads \<^verbatim>\<open>currentFrame\<close> and \<^verbatim>\<open>frameCount\<close>; the frame
  list, the per-frame duration and the elapsed time are the remaining parts of the
  AnimationSequence of the specification.
\<close>

record Animation =
  frames :: "Rectangle list"
  frameCount :: int
  currentFrame :: int
  frameTime :: real
  frameDuration :: real

text \<open>
  What the code writes outside the player: one entry per \<^verbatim>\<open>printf\<close> call (the object name
  with the fixed text of the format, or the stamina and mana figures) and one per
  \<^verbatim>\<open>DrawCircle\<close> call.
\<close>

datatype Output =
    Printf_name string string
  | Printf_stats real real
  | DrawCircle int int real Color

text \<open>
  The fields of the \<^verbatim>\<open>GameObject\<close> base that player.c reads or writes, and the \<^verbatim>\<open>Player\<close>
  structure that extends it (the C code casts between the two pointers). The field
  \<open>stdout\<close> is not a member of the structure: it is the output written so far, threaded
  through the player so that each function stays a function of one argument.
\<close>

record GameObject =
  name :: string
  position :: Vector2
  speed :: real
  collider :: c2Circle
  health :: int
  previousState :: State
  currentState :: State
  lastDirection :: State
  animation :: Animation

record Player = GameObject +
  stamina :: real
  mana :: real
  lives :: int
  spawnPoint :: Vector2
  shieldColor :: Color
  shieldRadius :: real
  shieldActive :: bool
  stdout :: "Output list"

text \<open>
  What the code asks of raylib and libc: the screen size, the generic animator
  \<^verbatim>\<open>UpdateAnimation\<close> (it advances a cursor by the frame time; any function fits here) and
  the value the next call of \<^verbatim>\<open>rand()\<close> returns.
\<close>

record Env =
  GetScreenWidth :: int
  GetScreenHeight :: int
  UpdateAnimation :: "Animation \<Rightarrow> Animation"
  rand :: int

subsection \<open>Output and animation helpers\<close>

definition printf_name :: "string \<Rightarrow> Player \<Rightarrow> Player" where
  "printf_name msg obj = obj\<lparr>stdout := stdout obj @ [Printf_name (name obj) msg]\<rparr>"

definition printf_stats :: "Player \<Rightarrow> Player" where
  "printf_stats obj = obj\<lparr>stdout := stdout obj @ [Printf_stats (stamina obj) (mana obj)]\<rparr>"

text \<open>The C cast \<^verbatim>\<open>(int)\<close> of a float truncates towards zero.\<close>

definition int_cast :: "real \<Rightarrow> int" where
  "int_cast v = (if 0 \<le> v then \<lfloor>v\<rfloor> else \<lceil>v\<rceil>)"

text \<open>
  Modelled from the spec: \<^verbatim>\<open>InitGameObjectAnimation\<close> is defined in gameobject.c, which is
  not among the sources. The specification has every Entry replace the AnimationSequence
  wholesale: the first \<open>n\<close> regions of the table, \<open>n\<close> as the frame count, the given
  per-frame duration, and a fresh cursor (frame 0, no elapsed time).
\<close>

definition InitGameObjectAnimation :: "Player \<Rightarrow> Rectangle list \<Rightarrow> int \<Rightarrow> real \<Rightarrow> Player" where
  "InitGameObjectAnimation obj fs n dur =
     obj\<lparr>animation := \<lparr>frames = take (nat n) fs, frameCount = n, currentFrame = 0,
                        frameTime = 0, frameDuration = dur\<rparr>\<rparr>"

text \<open>
  The frame tables of player.c are rows of the sprite sheet: \<open>n\<close> square cells of side
  \<open>w\<close>, left to right, at height \<open>y0\<close>.
\<close>

definition sheetRow :: "real \<Rightarrow> real \<Rightarrow> nat \<Rightarrow> Rectangle list" where
  "sheetRow y0 w n = map (\<lambda>i. (real i * w, y0, w, w)) [0..<n]"

subsection \<open>Entry and Exit hooks\<close>

definition SelectRandomIdleAnimation :: "Env \<Rightarrow> Player \<Rightarrow> Player" where
  "SelectRandomIdleAnimation env obj =
     (let randomChoice = rand env mod 7 + 1;
          idle1 = sheetRow 320 64 8;
          idle2 = sheetRow 384 64 8;
          idle3 = sheetRow 448 64 8;
          idle4 = sheetRow 1024 64 13;
          idle5 = sheetRow 1088 64 13;
          idle6 = sheetRow 1152 64 13;
          idle7 = sheetRow 1216 64 13
      in if randomChoice = 1 then InitGameObjectAnimation obj idle1 8 0.2
         else if randomChoice = 2 then InitGameObjectAnimation obj idle2 8 0.2
         else if randomChoice = 3 then InitGameObjectAnimation obj idle3 8 0.2
         else if randomChoice = 4 then InitGameObjectAnimation obj idle4 8 0.2
         else if randomChoice = 5 then InitGameObjectAnimation obj idle5 8 0.2
         else if randomChoice = 6 then InitGameObjectAnimation obj idle6 8 0.2
         else if randomChoice = 7 then InitGameObjectAnimation obj idle7 8 0.2
         else InitGameObjectAnimation obj idle1 8 0.2)"

definition PlayerEnterIdle :: "Env \<Rightarrow> Player \<Rightarrow> Player" where
  "PlayerEnterIdle env obj =
     (let player = printf_stats (printf_name ''-> ENTER -> Idle'' obj)
      in if previousState player \<noteq> currentState player \<and> currentState player = STATE_IDLE
         then SelectRandomIdleAnimation env player
         else player)"

definition PlayerExitIdle :: "Player \<Rightarrow> Player" where
  "PlayerExitIdle obj = printf_stats (printf_name ''<- EXIT <- Idle'' obj)"

fun walkFramesRow :: "State \<Rightarrow> real" where
  "walkFramesRow STATE_MOVING_UP_LEFT = 512"
| "walkFramesRow STATE_MOVING_UP_RIGHT = 512"
| "walkFramesRow STATE_MOVING_DOWN_LEFT = 640"
| "walkFramesRow STATE_MOVING_DOWN_RIGHT = 640"
| "walkFramesRow STATE_MOVING_UP = 512"
| "walkFramesRow STATE_MOVING_DOWN = 640"
| "walkFramesRow STATE_MOVING_LEFT = 576"
| "walkFramesRow STATE_MOVING_RIGHT = 704"
| "walkFramesRow _ = 512"

definition PlayerEnterWalking :: "Player \<Rightarrow> Player" where
  "PlayerEnterWalking obj =
     (let player = printf_stats (printf_name ''-> ENTER -> Walking'' obj);
          walkFrames = sheetRow (walkFramesRow (currentState player)) 64 9
      in InitGameObjectAnimation player walkFrames 9 0.1)"

definition PlayerExitWalking :: "Player \<Rightarrow> Player" where
  "PlayerExitWalking obj = printf_stats (printf_name ''<- EXIT <- Walking'' obj)"

definition PlayerEnterAttacking :: "Player \<Rightarrow> Player" where
  "PlayerEnterAttacking obj =
     (let player = printf_stats (printf_name ''-> ENTER -> Attacking'' obj);
          attackDown = sheetRow 3328 192 6;
          attackUp = sheetRow 2994 192 6;
          attackLeft = sheetRow 3136 192 6;
          attackRight = sheetRow 3520 192 6
      in case lastDirection player of
           STATE_MOVING_UP \<Rightarrow> InitGameObjectAnimation player attackUp 6 0.1
         | STATE_MOVING_DOWN \<Rightarrow> InitGameObjectAnimation player attackDown 6 0.1
         | STATE_MOVING_LEFT \<Rightarrow> InitGameObjectAnimation player attackLeft 6 0.1
         | STATE_MOVING_RIGHT \<Rightarrow> InitGameObjectAnimation player attackRight 6 0.1
         | _ \<Rightarrow> InitGameObjectAnimation player attackDown 6 0.1)"

definition PlayerExitAttacking :: "Player \<Rightarrow> Player" where
  "PlayerExitAttacking obj = printf_stats (printf_name ''<- EXIT <- Attacking'' obj)"

definition PlayerEnterDie :: "Player \<Rightarrow> Player" where
  "PlayerEnterDie obj =
     (let player = printf_name ''-> ENTER -> Die'' obj;
          deadFrames = sheetRow 1280 64 6
      in InitGameObjectAnimation player deadFrames 6 0.2)"

definition PlayerExitDie :: "Player \<Rightarrow> Player" where
  "PlayerExitDie obj = printf_name ''<- EXIT <- Die'' obj"

definition PlayerEnterRespawn :: "Env \<Rightarrow> Player \<Rightarrow> Player" where
  "PlayerEnterRespawn env obj =
     (let player = obj\<lparr>position := \<lparr>vec_x = real_of_int (GetScreenWidth env) / 2,
                                      vec_y = real_of_int (GetScreenHeight env) / 2\<rparr>,
                       health := 100, stamina := 100, mana := 100\<rparr>;
          respawnFrames = sheetRow 384 64 8
      in InitGameObjectAnimation player respawnFrames 8 0.1)"

definition PlayerExitRespawn :: "Player \<Rightarrow> Player" where
  "PlayerExitRespawn obj = printf_name ''<- EXIT <- Respawn'' obj"

definition PlayerEnterShield :: "Player \<Rightarrow> Player" where
  "PlayerEnterShield obj =
     (let player = printf_stats (printf_name ''-> ENTER -> Shield'' obj);
          player = player\<lparr>shieldColor := (0, 255, 128, 128), shieldRadius := 90,
                          shieldActive := True\<rparr>;
          shieldFrames = sheetRow 384 64 8
      in InitGameObjectAnimation player shieldFrames 8 0.1)"

definition PlayerExitShield :: "Player \<Rightarrow> Player" where
  "PlayerExitShield obj =
     (let player = printf_stats (printf_name ''<- EXIT <- Shield'' obj)
      in player\<lparr>shieldActive := False\<rparr>)"

subsection \<open>The state table of InitPlayerFSM\<close>

text \<open>
  The allowed destinations, as the arrays handed to \<^verbatim>\<open>StateTransitions\<close>, and the Entry and
  Exit members of each \<^verbatim>\<open>stateConfigs\<close> slot. \<^verbatim>\<open>STATE_COLLISION\<close> gets the empty
  configuration: no hook and no destination.
\<close>

fun nextStates :: "State \<Rightarrow> State list" where
  "nextStates STATE_IDLE =
     [STATE_WALKING, STATE_ATTACKING, STATE_SHIELD, STATE_DEAD, STATE_MOVING_UP,
      STATE_MOVING_RIGHT, STATE_MOVING_LEFT, STATE_MOVING_DOWN, STATE_MOVING_UP_LEFT,
      STATE_MOVING_UP_RIGHT, STATE_MOVING_DOWN_LEFT, STATE_MOVING_DOWN_RIGHT, STATE_SHIELD]"
| "nextStates STATE_WALKING =
     [STATE_WALKING, STATE_ATTACKING, STATE_SHIELD, STATE_DEAD, STATE_MOVING_UP,
      STATE_MOVING_RIGHT, STATE_MOVING_LEFT, STATE_MOVING_DOWN, STATE_MOVING_UP_LEFT,
      STATE_MOVING_UP_RIGHT, STATE_MOVING_DOWN_LEFT, STATE_MOVING_DOWN_RIGHT]"
| "nextStates STATE_MOVING_UP = [STATE_IDLE, STATE_ATTACKING, STATE_DEAD]"
| "nextStates STATE_MOVING_DOWN = [STATE_IDLE, STATE_ATTACKING, STATE_DEAD]"
| "nextStates STATE_MOVING_LEFT = [STATE_IDLE, STATE_ATTACKING, STATE_DEAD]"
| "nextStates STATE_MOVING_RIGHT = [STATE_IDLE, STATE_ATTACKING, STATE_DEAD]"
| "nextStates STATE_MOVING_UP_LEFT = [STATE_IDLE, STATE_ATTACKING, STATE_DEAD]"
| "nextStates STATE_MOVING_UP_RIGHT = [STATE_IDLE, STATE_ATTACKING, STATE_DEAD]"
| "nextStates STATE_MOVING_DOWN_LEFT = [STATE_IDLE, STATE_ATTACKING, STATE_DEAD]"
| "nextStates STATE_MOVING_DOWN_RIGHT = [STATE_IDLE, STATE_ATTACKING, STATE_DEAD]"
| "nextStates STATE_SHIELD = [STATE_IDLE, STATE_DEAD]"
| "nextStates STATE_ATTACKING = [STATE_IDLE, STATE_DEAD]"
| "nextStates STATE_DEAD = [STATE_RESPAWN]"
| "nextStates STATE_RESPAWN = [STATE_IDLE]"
| "nextStates STATE_COLLISION = []"

fun Entry :: "Env \<Rightarrow> State \<Rightarrow> Player \<Rightarrow> Player" where
  "Entry env STATE_IDLE obj = PlayerEnterIdle env obj"
| "Entry env STATE_WALKING obj = PlayerEnterWalking obj"
| "Entry env STATE_MOVING_UP obj = PlayerEnterWalking obj"
| "Entry env STATE_MOVING_DOWN obj = PlayerEnterWalking obj"
| "Entry env STATE_MOVING_LEFT obj = PlayerEnterWalking obj"
| "Entry env STATE_MOVING_RIGHT obj = PlayerEnterWalking obj"
| "Entry env STATE_MOVING_UP_LEFT obj = PlayerEnterWalking obj"
| "Entry env STATE_MOVING_UP_RIGHT obj = PlayerEnterWalking obj"
| "Entry env STATE_MOVING_DOWN_LEFT obj = PlayerEnterWalking obj"
| "Entry env STATE_MOVING_DOWN_RIGHT obj = PlayerEnterWalking obj"
| "Entry env STATE_SHIELD obj = PlayerEnterShield obj"
| "Entry env STATE_ATTACKING obj = PlayerEnterAttacking obj"
| "Entry env STATE_DEAD obj = PlayerEnterDie obj"
| "Entry env STATE_RESPAWN obj = PlayerEnterRespawn env obj"
| "Entry env STATE_COLLISION obj = obj"

fun Exit :: "State \<Rightarrow> Player \<Rightarrow> Player" where
  "Exit STATE_IDLE obj = PlayerExitIdle obj"
| "Exit STATE_WALKING obj = PlayerExitWalking obj"
| "Exit STATE_MOVING_UP obj = PlayerExitWalking obj"
| "Exit STATE_MOVING_DOWN obj = PlayerExitWalking obj"
| "Exit STATE_MOVING_LEFT obj = PlayerExitWalking obj"
| "Exit STATE_MOVING_RIGHT obj = PlayerExitWalking obj"
| "Exit STATE_MOVING_UP_LEFT obj = PlayerExitWalking obj"
| "Exit STATE_MOVING_UP_RIGHT obj = PlayerExitWalking obj"
| "Exit STATE_MOVING_DOWN_LEFT obj = PlayerExitWalking obj"
| "Exit STATE_MOVING_DOWN_RIGHT obj = PlayerExitWalking obj"
| "Exit STATE_SHIELD obj = PlayerExitShield obj"
| "Exit STATE_ATTACKING obj = PlayerExitAttacking obj"
| "Exit STATE_DEAD obj = PlayerExitDie obj"
| "Exit STATE_RESPAWN obj = PlayerExitRespawn obj"
| "Exit STATE_COLLISION obj = obj"

subsection \<open>The transition operation\<close>

text \<open>
  Modelled from the spec: \<^verbatim>\<open>ChangeState\<close> is defined in gameobject.c, which is not among the
  sources; player.c only calls it. The specification (4.1, 7) gives it two tiers: a
  transition triggered by an event is rejected, with no effect, when the destination is
  not in the current state's allowed set; a transition forced by an update (resource
  depletion, animation completion, death and respawn chaining) bypasses that check. An
  accepted transition invokes the Exit hook of the current state, sets \<open>previousState\<close> to
  the current state and \<open>currentState\<close> to the destination, then invokes the Entry hook of
  the destination. The event handlers below call it as \<open>EventDriven\<close>, the update
  functions as \<open>Forced\<close>.
\<close>

datatype Tier = EventDriven | Forced

definition TransitionAllowed :: "State \<Rightarrow> State \<Rightarrow> bool" where
  "TransitionAllowed src dst = (dst \<in> set (nextStates src))"

definition ChangeState :: "Env \<Rightarrow> Tier \<Rightarrow> Player \<Rightarrow> State \<Rightarrow> Player" where
  "ChangeState env tier obj newState =
     (if tier = EventDriven \<and> \<not> TransitionAllowed (currentState obj) newState then obj
      else let left = Exit (currentState obj) obj;
               moved = left\<lparr>previousState := currentState left, currentState := newState\<rparr>
           in Entry env newState moved)"

subsection \<open>Event handlers\<close>

fun PlayerIdleHandleEvent :: "Env \<Rightarrow> Player \<Rightarrow> Event \<Rightarrow> Player" where
  "PlayerIdleHandleEvent env obj EVENT_MOVE = ChangeState env EventDriven obj STATE_WALKING"
| "PlayerIdleHandleEvent env obj EVENT_ATTACK = ChangeState env EventDriven obj STATE_ATTACKING"
| "PlayerIdleHandleEvent env obj EVENT_DEFEND = ChangeState env EventDriven obj STATE_SHIELD"
| "PlayerIdleHandleEvent env obj EVENT_DIE = ChangeState env EventDriven obj STATE_DEAD"
| "PlayerIdleHandleEvent env obj EVENT_NONE = obj\<lparr>previousState := currentState obj\<rparr>"
| "PlayerIdleHandleEvent env obj EVENT_RESPAWN = obj"
| "PlayerIdleHandleEvent env obj EVENT_COLLISION_START = obj"
| "PlayerIdleHandleEvent env obj EVENT_COLLISION_END = obj"
| "PlayerIdleHandleEvent env obj EVENT_COUNT = obj"
| "PlayerIdleHandleEvent env obj EVENT_MOVE_UP = ChangeState env EventDriven obj STATE_MOVING_UP"
| "PlayerIdleHandleEvent env obj EVENT_MOVE_DOWN = ChangeState env EventDriven obj STATE_MOVING_DOWN"
| "PlayerIdleHandleEvent env obj EVENT_MOVE_LEFT = ChangeState env EventDriven obj STATE_MOVING_LEFT"
| "PlayerIdleHandleEvent env obj EVENT_MOVE_RIGHT = ChangeState env EventDriven obj STATE_MOVING_RIGHT"
| "PlayerIdleHandleEvent env obj EVENT_MOVE_UP_RIGHT =
     ChangeState env EventDriven obj STATE_MOVING_UP_RIGHT"
| "PlayerIdleHandleEvent env obj EVENT_MOVE_UP_LEFT =
     ChangeState env EventDriven obj STATE_MOVING_UP_LEFT"
| "PlayerIdleHandleEvent env obj EVENT_MOVE_DOWN_RIGHT =
     ChangeState env EventDriven obj STATE_MOVING_DOWN_RIGHT"
| "PlayerIdleHandleEvent env obj EVENT_MOVE_DOWN_LEFT =
     ChangeState env EventDriven obj STATE_MOVING_DOWN_LEFT"
| "PlayerIdleHandleEvent env obj EVENT_SHIELD = ChangeState env EventDriven obj STATE_SHIELD"

text \<open>
  The other handlers print two lines before their \<^verbatim>\<open>switch\<close>; \<open>obj\<close> in the \<open>_switch\<close>
  functions is the player after those lines.
\<close>

fun PlayerWalkingHandleEvent_switch :: "Env \<Rightarrow> Player \<Rightarrow> Event \<Rightarrow> Player" where
  "PlayerWalkingHandleEvent_switch env obj EVENT_NONE = ChangeState env EventDriven obj STATE_IDLE"
| "PlayerWalkingHandleEvent_switch env obj EVENT_ATTACK =
     ChangeState env EventDriven obj STATE_ATTACKING"
| "PlayerWalkingHandleEvent_switch env obj EVENT_DIE = ChangeState env EventDriven obj STATE_DEAD"
| "PlayerWalkingHandleEvent_switch env obj EVENT_MOVE = obj"
| "PlayerWalkingHandleEvent_switch env obj EVENT_DEFEND = obj"
| "PlayerWalkingHandleEvent_switch env obj EVENT_RESPAWN = obj"
| "PlayerWalkingHandleEvent_switch env obj EVENT_COLLISION_START = obj"
| "PlayerWalkingHandleEvent_switch env obj EVENT_COLLISION_END = obj"
| "PlayerWalkingHandleEvent_switch env obj EVENT_COUNT = obj"
| "PlayerWalkingHandleEvent_switch env obj EVENT_MOVE_UP =
     ChangeState env EventDriven obj STATE_MOVING_UP"
| "PlayerWalkingHandleEvent_switch env obj EVENT_MOVE_DOWN =
     ChangeState env EventDriven obj STATE_MOVING_DOWN"
| "PlayerWalkingHandleEvent_switch env obj EVENT_MOVE_LEFT =
     ChangeState env EventDriven obj STATE_MOVING_LEFT"
| "PlayerWalkingHandleEvent_switch env obj EVENT_MOVE_RIGHT =
     ChangeState env EventDriven obj STATE_MOVING_RIGHT"
| "PlayerWalkingHandleEvent_switch env obj EVENT_MOVE_UP_RIGHT =
     ChangeState env EventDriven obj STATE_MOVING_UP_RIGHT"
| "PlayerWalkingHandleEvent_switch env obj EVENT_MOVE_UP_LEFT =
     ChangeState env EventDriven obj STATE_MOVING_UP_LEFT"
| "PlayerWalkingHandleEvent_switch env obj EVENT_MOVE_DOWN_RIGHT =
     ChangeState env EventDriven obj STATE_MOVING_DOWN_RIGHT"
| "PlayerWalkingHandleEvent_switch env obj EVENT_MOVE_DOWN_LEFT =
     ChangeState env EventDriven obj STATE_MOVING_DOWN_LEFT"
| "PlayerWalkingHandleEvent_switch env obj EVENT_SHIELD = obj"

definition PlayerWalkingHandleEvent :: "Env \<Rightarrow> Player \<Rightarrow> Event \<Rightarrow> Player" where
  "PlayerWalkingHandleEvent env obj event =
     PlayerWalkingHandleEvent_switch env
       (printf_stats (printf_name ''Walking HandleEvent'' obj)) event"

fun PlayerAttackingHandleEvent_switch :: "Env \<Rightarrow> Player \<Rightarrow> Event \<Rightarrow> Player" where
  "PlayerAttackingHandleEvent_switch env obj EVENT_NONE =
     ChangeState env EventDriven obj STATE_IDLE"
| "PlayerAttackingHandleEvent_switch env obj EVENT_DIE =
     ChangeState env EventDriven obj STATE_DEAD"
| "PlayerAttackingHandleEvent_switch env obj _ = obj"

definition PlayerAttackingHandleEvent :: "Env \<Rightarrow> Player \<Rightarrow> Event \<Rightarrow> Player" where
  "PlayerAttackingHandleEvent env obj event =
     PlayerAttackingHandleEvent_switch env
       (printf_stats (printf_name ''Attacking HandleEvent'' obj)) event"

definition PlayerDieHandleEvent :: "Player \<Rightarrow> Event \<Rightarrow> Player" where
  "PlayerDieHandleEvent obj event = printf_stats (printf_name ''Die HandleEvent'' obj)"

text \<open>The respawn handler prints the same text as the die handler.\<close>

definition PlayerRespawnHandleEvent :: "Player \<Rightarrow> Event \<Rightarrow> Player" where
  "PlayerRespawnHandleEvent obj event = printf_stats (printf_name ''Die HandleEvent'' obj)"

fun PlayerShieldHandleEvent_switch :: "Env \<Rightarrow> Player \<Rightarrow> Event \<Rightarrow> Player" where
  "PlayerShieldHandleEvent_switch env obj EVENT_MOVE_UP = ChangeState env EventDriven obj STATE_IDLE"
| "PlayerShieldHandleEvent_switch env obj EVENT_MOVE_DOWN =
     ChangeState env EventDriven obj STATE_IDLE"
| "PlayerShieldHandleEvent_switch env obj EVENT_MOVE_LEFT =
     ChangeState env EventDriven obj STATE_IDLE"
| "PlayerShieldHandleEvent_switch env obj EVENT_MOVE_RIGHT =
     ChangeState env EventDriven obj STATE_IDLE"
| "PlayerShieldHandleEvent_switch env obj EVENT_MOVE_UP_LEFT =
     ChangeState env EventDriven obj STATE_IDLE"
| "PlayerShieldHandleEvent_switch env obj EVENT_MOVE_UP_RIGHT =
     ChangeState env EventDriven obj STATE_IDLE"
| "PlayerShieldHandleEvent_switch env obj EVENT_MOVE_DOWN_LEFT =
     ChangeState env EventDriven obj STATE_IDLE"
| "PlayerShieldHandleEvent_switch env obj EVENT_MOVE_DOWN_RIGHT =
     ChangeState env EventDriven obj STATE_IDLE"
| "PlayerShieldHandleEvent_switch env obj EVENT_DIE = ChangeState env EventDriven obj STATE_DEAD"
| "PlayerShieldHandleEvent_switch env obj _ = obj"

definition PlayerShieldHandleEvent :: "Env \<Rightarrow> Player \<Rightarrow> Event \<Rightarrow> Player" where
  "PlayerShieldHandleEvent env obj event =
     PlayerShieldHandleEvent_switch env
       (printf_stats (printf_name ''Shield HandleEvent'' obj)) event"

subsection \<open>Update functions\<close>

definition PlayerMove :: "Player \<Rightarrow> Vector2 \<Rightarrow> Player" where
  "PlayerMove player moveDirection =
     (let moved = player\<lparr>position :=
                     \<lparr>vec_x = vec_x (position player) + vec_x moveDirection,
                      vec_y = vec_y (position player) + vec_y moveDirection\<rparr>\<rparr>
      in moved\<lparr>collider := (collider moved)\<lparr>c_p := position moved\<rparr>\<rparr>)"

definition PlayerUpdateIdle :: "Env \<Rightarrow> Player \<Rightarrow> Player" where
  "PlayerUpdateIdle env obj =
     (let REGEN_RATE = 0.5;
          MAX_STAMINA = 100;
          MAX_MANA = 100;
          player = obj\<lparr>stamina := min (stamina obj + REGEN_RATE) MAX_STAMINA\<rparr>;
          player = player\<lparr>mana := min (mana player + REGEN_RATE) MAX_MANA\<rparr>
      in player\<lparr>animation := UpdateAnimation env (animation player)\<rparr>)"

text \<open>
  The \<^verbatim>\<open>switch\<close> of \<^verbatim>\<open>PlayerUpdateWalking\<close> on the current state: the value it leaves in
  the local \<^verbatim>\<open>moveDirection\<close> (which starts as \<^verbatim>\<open>{0, 0}\<close>), and the player after the
  assignment, if any, to \<^verbatim>\<open>lastDirection\<close>.
\<close>

fun moveDirection_switch :: "State \<Rightarrow> real \<Rightarrow> Vector2" where
  "moveDirection_switch STATE_MOVING_UP_RIGHT moveSpeed =
     \<lparr>vec_x = moveSpeed / 2, vec_y = - moveSpeed / 2\<rparr>"
| "moveDirection_switch STATE_MOVING_UP_LEFT moveSpeed =
     \<lparr>vec_x = - moveSpeed / 2, vec_y = - moveSpeed / 2\<rparr>"
| "moveDirection_switch STATE_MOVING_DOWN_RIGHT moveSpeed =
     \<lparr>vec_x = moveSpeed / 2, vec_y = moveSpeed / 2\<rparr>"
| "moveDirection_switch STATE_MOVING_DOWN_LEFT moveSpeed =
     \<lparr>vec_x = - moveSpeed / 2, vec_y = moveSpeed / 2\<rparr>"
| "moveDirection_switch STATE_MOVING_UP moveSpeed = \<lparr>vec_x = 0, vec_y = - moveSpeed\<rparr>"
| "moveDirection_switch STATE_MOVING_DOWN moveSpeed = \<lparr>vec_x = 0, vec_y = moveSpeed\<rparr>"
| "moveDirection_switch STATE_MOVING_LEFT moveSpeed = \<lparr>vec_x = - moveSpeed, vec_y = 0\<rparr>"
| "moveDirection_switch STATE_MOVING_RIGHT moveSpeed = \<lparr>vec_x = moveSpeed, vec_y = 0\<rparr>"
| "moveDirection_switch _ moveSpeed = \<lparr>vec_x = 0, vec_y = - moveSpeed\<rparr>"

fun lastDirection_switch :: "Player \<Rightarrow> State \<Rightarrow> Player" where
  "lastDirection_switch obj STATE_MOVING_UP = obj\<lparr>lastDirection := STATE_MOVING_UP\<rparr>"
| "lastDirection_switch obj STATE_MOVING_DOWN = obj\<lparr>lastDirection := STATE_MOVING_DOWN\<rparr>"
| "lastDirection_switch obj STATE_MOVING_LEFT = obj\<lparr>lastDirection := STATE_MOVING_LEFT\<rparr>"
| "lastDirection_switch obj STATE_MOVING_RIGHT = obj\<lparr>lastDirection := STATE_MOVING_RIGHT\<rparr>"
| "lastDirection_switch obj _ = obj"

text \<open>The four boundary checks, in the order of the source, then the collider update.\<close>

definition boundaryChecks :: "Env \<Rightarrow> Player \<Rightarrow> Player" where
  "boundaryChecks env obj =
     (let PLAYER_RADIUS = 32;
          o1 = (if vec_x (position obj) < PLAYER_RADIUS
                then obj\<lparr>position := (position obj)\<lparr>vec_x := PLAYER_RADIUS\<rparr>\<rparr> else obj);
          o2 = (if vec_x (position o1) > real_of_int (GetScreenWidth env) - PLAYER_RADIUS
                then o1\<lparr>position := (position o1)
                          \<lparr>vec_x := real_of_int (GetScreenWidth env) - PLAYER_RADIUS\<rparr>\<rparr>
                else o1);
          o3 = (if vec_y (position o2) < PLAYER_RADIUS
                then o2\<lparr>position := (position o2)\<lparr>vec_y := PLAYER_RADIUS\<rparr>\<rparr> else o2);
          o4 = (if vec_y (position o3) > real_of_int (GetScreenHeight env) - PLAYER_RADIUS
                then o3\<lparr>position := (position o3)
                          \<lparr>vec_y := real_of_int (GetScreenHeight env) - PLAYER_RADIUS\<rparr>\<rparr>
                else o3)
      in o4\<lparr>collider := (collider o4)\<lparr>c_p := position o4\<rparr>\<rparr>)"

definition PlayerUpdateWalking :: "Env \<Rightarrow> Player \<Rightarrow> Player" where
  "PlayerUpdateWalking env obj =
     (let player = printf_stats (printf_name ''-> UPDATE -> Walking'' obj);
          moveSpeed = speed player;
          MOVE_STAMINA_COST = 0.05;
          player = player\<lparr>stamina := stamina player - MOVE_STAMINA_COST\<rparr>
      in if stamina player \<le> 0
         then ChangeState env Forced (player\<lparr>stamina := 0\<rparr>) STATE_IDLE
         else
           let moveDirection = moveDirection_switch (currentState player) moveSpeed;
               player = lastDirection_switch player (currentState player);
               player = PlayerMove player moveDirection;
               player = boundaryChecks env player;
               player = player\<lparr>animation := UpdateAnimation env (animation player)\<rparr>;
               player = (if health player \<le> 0 then ChangeState env Forced player STATE_DEAD
                         else player)
           in if currentFrame (animation player) \<ge> frameCount (animation player) - 1
              then ChangeState env Forced player STATE_IDLE
              else player)"

definition PlayerUpdateAttacking :: "Env \<Rightarrow> Player \<Rightarrow> Player" where
  "PlayerUpdateAttacking env obj =
     (let player = printf_stats (printf_name ''-> UPDATE -> Attacking'' obj);
          ATTACK_MANA_COST = 1;
          player = player\<lparr>mana := mana player - ATTACK_MANA_COST\<rparr>
      in if mana player \<le> 0
         then ChangeState env Forced (player\<lparr>mana := 0\<rparr>) STATE_IDLE
         else player\<lparr>animation := UpdateAnimation env (animation player)\<rparr>)"

definition PlayerUpdateDie :: "Env \<Rightarrow> Player \<Rightarrow> Player" where
  "PlayerUpdateDie env obj =
     (let player = printf_name ''-> UPDATE -> Die'' obj;
          player = player\<lparr>animation := UpdateAnimation env (animation player)\<rparr>
      in if currentFrame (animation player) \<ge> frameCount (animation player) - 1
         then
           let player = player\<lparr>lives := lives player - 1\<rparr>
           in if lives player > 0 then ChangeState env Forced player STATE_RESPAWN
              else ChangeState env Forced
                     (player\<lparr>position := spawnPoint player, lives := 4\<rparr>) STATE_IDLE
         else player)"

definition PlayerUpdateRespawn :: "Env \<Rightarrow> Player \<Rightarrow> Player" where
  "PlayerUpdateRespawn env obj =
     (let player = printf_name ''-> UPDATE -> Respawn'' obj;
          player = player\<lparr>animation := UpdateAnimation env (animation player)\<rparr>
      in if currentFrame (animation player) \<ge> frameCount (animation player) - 1
         then ChangeState env Forced player STATE_IDLE
         else player)"

definition PlayerUpdateShield :: "Env \<Rightarrow> Player \<Rightarrow> Player" where
  "PlayerUpdateShield env obj =
     (let player = printf_stats (printf_name ''-> UPDATE -> Shield'' obj);
          player = player\<lparr>animation := UpdateAnimation env (animation player)\<rparr>;
          player = player\<lparr>stamina := stamina player - 0.05\<rparr>;
          player = (if stamina player \<le> 0 then ChangeState env Forced player STATE_IDLE
                    else player)
      in player\<lparr>stdout := stdout player @
                  [DrawCircle (int_cast (vec_x (position player)))
                              (int_cast (vec_y (position player)))
                              (shieldRadius player) (shieldColor player)]\<rparr>)"

subsection \<open>Dispatch and tick\<close>

text \<open>
  Modelled from the spec: the dispatcher and the per-tick driver are defined in
  gameobject.c, which is not among the sources. The specification has \<open>Dispatch\<close> invoke
  the event handler of the current state, and the tick run the Update of the current
  state; the handler and Update members are those \<^verbatim>\<open>InitPlayerFSM\<close> stores in each
  \<^verbatim>\<open>stateConfigs\<close> slot, and the empty slot of \<^verbatim>\<open>STATE_COLLISION\<close> does nothing.
\<close>

definition Dispatch :: "Env \<Rightarrow> Player \<Rightarrow> Event \<Rightarrow> Player" where
  "Dispatch env obj event =
     (case currentState obj of
        STATE_IDLE \<Rightarrow> PlayerIdleHandleEvent env obj event
      | STATE_SHIELD \<Rightarrow> PlayerShieldHandleEvent env obj event
      | STATE_ATTACKING \<Rightarrow> PlayerAttackingHandleEvent env obj event
      | STATE_DEAD \<Rightarrow> PlayerDieHandleEvent obj event
      | STATE_RESPAWN \<Rightarrow> PlayerRespawnHandleEvent obj event
      | STATE_COLLISION \<Rightarrow> obj
      | _ \<Rightarrow> PlayerWalkingHandleEvent env obj event)"

definition Tick :: "Env \<Rightarrow> Player \<Rightarrow> Player" where
  "Tick env obj =
     (case currentState obj of
        STATE_IDLE \<Rightarrow> PlayerUpdateIdle env obj
      | STATE_SHIELD \<Rightarrow> PlayerUpdateShield env obj
      | STATE_ATTACKING \<Rightarrow> PlayerUpdateAttacking env obj
      | STATE_DEAD \<Rightarrow> PlayerUpdateDie env obj
      | STATE_RESPAWN \<Rightarrow> PlayerUpdateRespawn env obj
      | STATE_COLLISION \<Rightarrow> obj
      | _ \<Rightarrow> PlayerUpdateWalking env obj)"

subsection \<open>Concrete inputs\<close>

text \<open>
  Inputs for the concrete evaluations below: an animator that shows the next frame on
  every tick and wraps after the last one, an 800 by 600 screen, and a player with full
  pools standing idle at the centre of that screen.
\<close>

definition nextFrame :: "Animation \<Rightarrow> Animation" where
  "nextFrame a =
     a\<lparr>currentFrame := (if currentFrame a + 1 < frameCount a then currentFrame a + 1 else 0)\<rparr>"

definition exampleEnv :: Env where
  "exampleEnv = \<lparr>GetScreenWidth = 800, GetScreenHeight = 600, UpdateAnimation = nextFrame,
                  rand = 3\<rparr>"

definition examplePlayer :: Player where
  "examplePlayer =
     \<lparr>name = ''Player'',
      position = \<lparr>vec_x = 400, vec_y = 300\<rparr>,
      speed = 2,
      collider = \<lparr>c_p = \<lparr>vec_x = 400, vec_y = 300\<rparr>, c_r = 10\<rparr>,
      health = 100,
      previousState = STATE_IDLE,
      currentState = STATE_IDLE,
      lastDirection = STATE_MOVING_DOWN,
      animation = \<lparr>frames = [], frameCount = 8, currentFrame = 0, frameTime = 0,
                    frameDuration = 0.2\<rparr>,
      stamina = 100,
      mana = 100,
      lives = 4,
      spawnPoint = \<lparr>vec_x = 64, vec_y = 64\<rparr>,
      shieldColor = (0, 0, 0, 0),
      shieldRadius = 0,
      shieldActive = False,
      stdout = []\<rparr>"

definition dyingPlayer :: "int \<Rightarrow> int \<Rightarrow> Player" where
  "dyingPlayer frame n =
     examplePlayer\<lparr>currentState := STATE_DEAD, health := 0, stamina := 40, mana := 30,
                    lives := n,
                    animation := \<lparr>frames = [], frameCount = 6, currentFrame = frame,
                                  frameTime = 0, frameDuration = 0.2\<rparr>\<rparr>"

definition walkingPlayer :: "State \<Rightarrow> real \<Rightarrow> Player" where
  "walkingPlayer s st =
     examplePlayer\<lparr>currentState := s, stamina := st,
                    animation := \<lparr>frames = sheetRow (walkFramesRow s) 64 9, frameCount = 9,
                                  currentFrame = 3, frameTime = 0, frameDuration = 0.1\<rparr>\<rparr>"

definition shieldingPlayer :: Player where
  "shieldingPlayer =
     examplePlayer\<lparr>currentState := STATE_SHIELD, shieldColor := (0, 255, 128, 128),
                    shieldRadius := 90, shieldActive := True\<rparr>"

section \<open>Properties\<close>

subsection \<open>What the hooks and the transition leave alone\<close>

lemmas print_defs = printf_name_def printf_stats_def

lemmas exit_defs = PlayerExitIdle_def PlayerExitWalking_def PlayerExitAttacking_def
  PlayerExitDie_def PlayerExitRespawn_def PlayerExitShield_def

lemmas enter_defs = PlayerEnterIdle_def SelectRandomIdleAnimation_def PlayerEnterWalking_def
  PlayerEnterAttacking_def PlayerEnterDie_def PlayerEnterRespawn_def PlayerEnterShield_def
  InitGameObjectAnimation_def

lemma Exit_fields:
  "currentState (Exit s p) = currentState p"
  "previousState (Exit s p) = previousState p"
  "position (Exit s p) = position p"
  "collider (Exit s p) = collider p"
  "lastDirection (Exit s p) = lastDirection p"
  "animation (Exit s p) = animation p"
  "health (Exit s p) = health p"
  "speed (Exit s p) = speed p"
  "name (Exit s p) = name p"
  "stamina (Exit s p) = stamina p"
  "mana (Exit s p) = mana p"
  "lives (Exit s p) = lives p"
  "spawnPoint (Exit s p) = spawnPoint p"
  by (cases s; simp add: exit_defs print_defs)+

lemma Entry_fields:
  "currentState (Entry env s p) = currentState p"
  "previousState (Entry env s p) = previousState p"
  "collider (Entry env s p) = collider p"
  "lastDirection (Entry env s p) = lastDirection p"
  "speed (Entry env s p) = speed p"
  "name (Entry env s p) = name p"
  "lives (Entry env s p) = lives p"
  "spawnPoint (Entry env s p) = spawnPoint p"
  by (cases s; simp add: enter_defs print_defs Let_def split: State.split)+

lemma ChangeState_Forced_state:
  "currentState (ChangeState env Forced p s) = s"
  by (simp add: ChangeState_def Let_def Entry_fields)

lemma ChangeState_allowed_state:
  "TransitionAllowed (currentState p) s \<Longrightarrow>
   currentState (ChangeState env EventDriven p s) = s"
  by (simp add: ChangeState_def Let_def Entry_fields)

subsection \<open>Events in IDLE\<close>

text \<open>
  C1. For an entity in IDLE, the handler \<open>PlayerIdleHandleEvent\<close> takes MOVE to WALKING,
  each of the eight directional MOVE events to the matching MOVING state, ATTACK to
  ATTACKING, DEFEND and SHIELD to SHIELD, and DIE to DEAD; NONE only copies the current
  state into \<open>previousState\<close> and the state stays IDLE; RESPAWN, COLLISION_START and
  COLLISION_END (and the count sentinel) return the entity as it was.
\<close>

theorem idle_handle_event:
  assumes "currentState p = STATE_IDLE"
  shows "currentState (PlayerIdleHandleEvent env p EVENT_MOVE) = STATE_WALKING
       \<and> currentState (PlayerIdleHandleEvent env p EVENT_MOVE_UP) = STATE_MOVING_UP
       \<and> currentState (PlayerIdleHandleEvent env p EVENT_MOVE_DOWN) = STATE_MOVING_DOWN
       \<and> currentState (PlayerIdleHandleEvent env p EVENT_MOVE_LEFT) = STATE_MOVING_LEFT
       \<and> currentState (PlayerIdleHandleEvent env p EVENT_MOVE_RIGHT) = STATE_MOVING_RIGHT
       \<and> currentState (PlayerIdleHandleEvent env p EVENT_MOVE_UP_LEFT) = STATE_MOVING_UP_LEFT
       \<and> currentState (PlayerIdleHandleEvent env p EVENT_MOVE_UP_RIGHT) = STATE_MOVING_UP_RIGHT
       \<and> currentState (PlayerIdleHandleEvent env p EVENT_MOVE_DOWN_LEFT) = STATE_MOVING_DOWN_LEFT
       \<and> currentState (PlayerIdleHandleEvent env p EVENT_MOVE_DOWN_RIGHT)
           = STATE_MOVING_DOWN_RIGHT
       \<and> currentState (PlayerIdleHandleEvent env p EVENT_ATTACK) = STATE_ATTACKING
       \<and> currentState (PlayerIdleHandleEvent env p EVENT_DEFEND) = STATE_SHIELD
       \<and> currentState (PlayerIdleHandleEvent env p EVENT_SHIELD) = STATE_SHIELD
       \<and> currentState (PlayerIdleHandleEvent env p EVENT_DIE) = STATE_DEAD
       \<and> PlayerIdleHandleEvent env p EVENT_NONE = p\<lparr>previousState := currentState p\<rparr>
       \<and> currentState (PlayerIdleHandleEvent env p EVENT_NONE) = STATE_IDLE
       \<and> PlayerIdleHandleEvent env p EVENT_RESPAWN = p
       \<and> PlayerIdleHandleEvent env p EVENT_COLLISION_START = p
       \<and> PlayerIdleHandleEvent env p EVENT_COLLISION_END = p
       \<and> PlayerIdleHandleEvent env p EVENT_COUNT = p"
  using assms by (simp add: ChangeState_allowed_state TransitionAllowed_def)

theorem idle_handle_event_witness:
  "currentState examplePlayer = STATE_IDLE
   \<and> currentState (PlayerIdleHandleEvent exampleEnv examplePlayer EVENT_MOVE) = STATE_WALKING
   \<and> currentState (PlayerIdleHandleEvent exampleEnv examplePlayer EVENT_MOVE_UP_LEFT)
       = STATE_MOVING_UP_LEFT
   \<and> currentState (PlayerIdleHandleEvent exampleEnv examplePlayer EVENT_SHIELD) = STATE_SHIELD
   \<and> PlayerIdleHandleEvent exampleEnv examplePlayer EVENT_RESPAWN = examplePlayer"
proof -
  have idle: "currentState examplePlayer = STATE_IDLE"
    by (simp add: examplePlayer_def)
  from idle_handle_event [OF idle, of exampleEnv] idle show ?thesis
    by simp
qed

subsection \<open>More on the transition: forced changes and the animation it installs\<close>

lemma Entry_fields_not_respawn:
  assumes "s \<noteq> STATE_RESPAWN"
  shows "position (Entry env s p) = position p"
    and "health (Entry env s p) = health p"
    and "stamina (Entry env s p) = stamina p"
    and "mana (Entry env s p) = mana p"
  using assms by (cases s; simp add: enter_defs print_defs Let_def split: State.split)+

lemma ChangeState_Forced_fields:
  "previousState (ChangeState env Forced p s) = currentState p"
  "collider (ChangeState env Forced p s) = collider p"
  "lastDirection (ChangeState env Forced p s) = lastDirection p"
  "speed (ChangeState env Forced p s) = speed p"
  "name (ChangeState env Forced p s) = name p"
  "lives (ChangeState env Forced p s) = lives p"
  "spawnPoint (ChangeState env Forced p s) = spawnPoint p"
  by (simp_all add: ChangeState_def Let_def Entry_fields Exit_fields)

lemma ChangeState_Forced_fields_not_respawn:
  assumes "s \<noteq> STATE_RESPAWN"
  shows "position (ChangeState env Forced p s) = position p"
    and "health (ChangeState env Forced p s) = health p"
    and "stamina (ChangeState env Forced p s) = stamina p"
    and "mana (ChangeState env Forced p s) = mana p"
  using assms
  by (simp_all add: ChangeState_def Let_def Entry_fields_not_respawn Exit_fields)

lemma animation_enter_idle:
  assumes "currentState p = STATE_IDLE" and "previousState p \<noteq> STATE_IDLE"
  shows "animation (PlayerEnterIdle env p) = animation (SelectRandomIdleAnimation env p)"
  using assms by (simp add: enter_defs print_defs Let_def)

lemma animation_ChangeState_idle:
  assumes "currentState p \<noteq> STATE_IDLE"
  shows "animation (ChangeState env Forced p STATE_IDLE)
         = animation (SelectRandomIdleAnimation env p)"
proof -
  let ?moved = "(Exit (currentState p) p)\<lparr>previousState := currentState p,
                                           currentState := STATE_IDLE\<rparr>"
  have "animation (ChangeState env Forced p STATE_IDLE) = animation (PlayerEnterIdle env ?moved)"
    by (simp add: ChangeState_def Let_def Exit_fields)
  also have "\<dots> = animation (SelectRandomIdleAnimation env ?moved)"
    using assms by (intro animation_enter_idle) simp_all
  also have "\<dots> = animation (SelectRandomIdleAnimation env p)"
    by (simp add: SelectRandomIdleAnimation_def InitGameObjectAnimation_def Let_def)
  finally show ?thesis .
qed

lemma idle_animation_fresh:
  "currentFrame (animation (SelectRandomIdleAnimation env p)) = 0"
  "frameCount (animation (SelectRandomIdleAnimation env p)) = 8"
  by (simp_all add: SelectRandomIdleAnimation_def InitGameObjectAnimation_def Let_def)

lemma ChangeState_dead_animation:
  "currentFrame (animation (ChangeState env Forced p STATE_DEAD)) = 0"
  "frameCount (animation (ChangeState env Forced p STATE_DEAD)) = 6"
  by (simp_all add: ChangeState_def Let_def PlayerEnterDie_def InitGameObjectAnimation_def)

lemma select_ignores_animator:
  "SelectRandomIdleAnimation (env\<lparr>UpdateAnimation := u\<rparr>) q = SelectRandomIdleAnimation env q"
  by (simp add: SelectRandomIdleAnimation_def)

lemma Entry_ignores_animator:
  "Entry (env\<lparr>UpdateAnimation := u\<rparr>) s q = Entry env s q"
  by (cases s)
     (simp_all add: PlayerEnterIdle_def PlayerEnterRespawn_def select_ignores_animator Let_def
        cong: if_cong)

lemma ChangeState_ignores_animator:
  "ChangeState (env\<lparr>UpdateAnimation := u\<rparr>) tier p s = ChangeState env tier p s"
  by (simp add: ChangeState_def Entry_ignores_animator)

subsection \<open>Entering RESPAWN\<close>

text \<open>
  C10. The Entry hook of RESPAWN, \<open>PlayerEnterRespawn\<close>, does more than install the respawn
  animation (eight frames, cursor at frame 0): it puts the entity at the centre of the
  screen and sets health, stamina and mana to 100, whatever they were. It is the Entry
  member of the RESPAWN slot, so a forced change into RESPAWN has the same effect.
\<close>

theorem enter_respawn_resets:
  "position (PlayerEnterRespawn env p)
     = \<lparr>vec_x = real_of_int (GetScreenWidth env) / 2, vec_y = real_of_int (GetScreenHeight env) / 2\<rparr>
   \<and> health (PlayerEnterRespawn env p) = 100
   \<and> stamina (PlayerEnterRespawn env p) = 100
   \<and> mana (PlayerEnterRespawn env p) = 100
   \<and> frameCount (animation (PlayerEnterRespawn env p)) = 8
   \<and> currentFrame (animation (PlayerEnterRespawn env p)) = 0
   \<and> Entry env STATE_RESPAWN p = PlayerEnterRespawn env p
   \<and> position (ChangeState env Forced p STATE_RESPAWN)
     = \<lparr>vec_x = real_of_int (GetScreenWidth env) / 2, vec_y = real_of_int (GetScreenHeight env) / 2\<rparr>
   \<and> health (ChangeState env Forced p STATE_RESPAWN) = 100
   \<and> stamina (ChangeState env Forced p STATE_RESPAWN) = 100
   \<and> mana (ChangeState env Forced p STATE_RESPAWN) = 100"
  by (simp add: ChangeState_def PlayerEnterRespawn_def InitGameObjectAnimation_def Let_def)

subsection \<open>The ATTACKING tick\<close>

lemma attacking_tick_depleted:
  assumes "mana p - 1 \<le> 0"
  shows "PlayerUpdateAttacking env p
         = ChangeState env Forced
             ((printf_stats (printf_name ''-> UPDATE -> Attacking'' p))\<lparr>mana := 0\<rparr>) STATE_IDLE"
  using assms by (simp add: PlayerUpdateAttacking_def Let_def print_defs)

lemma attacking_tick_continues:
  assumes "mana p - 1 > 0"
  shows "PlayerUpdateAttacking env p
         = (printf_stats (printf_name ''-> UPDATE -> Attacking'' p))
             \<lparr>mana := mana p - 1, animation := UpdateAnimation env (animation p)\<rparr>"
  using assms by (simp add: PlayerUpdateAttacking_def Let_def print_defs)

lemma select_animation_cong:
  "animation (SelectRandomIdleAnimation env q) = animation (SelectRandomIdleAnimation env p)"
  by (simp add: SelectRandomIdleAnimation_def InitGameObjectAnimation_def Let_def)

text \<open>
  C4. A tick in ATTACKING deducts 1 from mana. If the result is at most 0, mana becomes
  exactly 0 and the entity is in IDLE at the end of the tick; the animator is not called
  (the result is the same for every animator \<open>u\<close>), and the animation is the idle
  sequence that the Entry hook of IDLE installs. Otherwise mana keeps the deducted value,
  the state stays ATTACKING and the animation is the advanced one. With mana 0.5 the tick
  ends with mana 0 in IDLE.
\<close>

theorem update_attacking:
  assumes "currentState p = STATE_ATTACKING"
  shows "(mana p - 1 \<le> 0 \<longrightarrow>
            mana (PlayerUpdateAttacking env p) = 0
          \<and> currentState (PlayerUpdateAttacking env p) = STATE_IDLE
          \<and> animation (PlayerUpdateAttacking env p) = animation (SelectRandomIdleAnimation env p)
          \<and> PlayerUpdateAttacking (env\<lparr>UpdateAnimation := u\<rparr>) p = PlayerUpdateAttacking env p)
       \<and> (mana p - 1 > 0 \<longrightarrow>
            mana (PlayerUpdateAttacking env p) = mana p - 1
          \<and> currentState (PlayerUpdateAttacking env p) = STATE_ATTACKING
          \<and> animation (PlayerUpdateAttacking env p) = UpdateAnimation env (animation p))
       \<and> (mana p = 1 / 2 \<longrightarrow>
            mana (PlayerUpdateAttacking env p) = 0
          \<and> currentState (PlayerUpdateAttacking env p) = STATE_IDLE)"
proof -
  let ?d = "(printf_stats (printf_name ''-> UPDATE -> Attacking'' p))\<lparr>mana := 0\<rparr>"
  have d: "currentState ?d \<noteq> STATE_IDLE" "mana ?d = 0"
    using assms by (simp_all add: print_defs)
  have A: "mana (PlayerUpdateAttacking env p) = 0
          \<and> currentState (PlayerUpdateAttacking env p) = STATE_IDLE
          \<and> animation (PlayerUpdateAttacking env p) = animation (SelectRandomIdleAnimation env p)
          \<and> PlayerUpdateAttacking (env\<lparr>UpdateAnimation := u\<rparr>) p = PlayerUpdateAttacking env p"
    if "mana p - 1 \<le> 0"
  proof -
    note eq = attacking_tick_depleted [OF that]
    have "mana (ChangeState env Forced ?d STATE_IDLE) = 0"
      by (simp only: ChangeState_Forced_fields_not_respawn d State.distinct not_False_eq_True)
    moreover have "animation (ChangeState env Forced ?d STATE_IDLE)
                   = animation (SelectRandomIdleAnimation env p)"
      using animation_ChangeState_idle [OF d(1)] select_animation_cong by simp
    ultimately show ?thesis
      by (simp only: eq ChangeState_Forced_state ChangeState_ignores_animator simp_thms)
  qed
  have B: "mana (PlayerUpdateAttacking env p) = mana p - 1
          \<and> currentState (PlayerUpdateAttacking env p) = STATE_ATTACKING
          \<and> animation (PlayerUpdateAttacking env p) = UpdateAnimation env (animation p)"
    if "mana p - 1 > 0"
    using assms by (simp add: attacking_tick_continues [OF that] print_defs)
  from A B show ?thesis by simp
qed

theorem update_attacking_witness:
  "currentState (examplePlayer\<lparr>currentState := STATE_ATTACKING, mana := 1 / 2\<rparr>) = STATE_ATTACKING
   \<and> mana (examplePlayer\<lparr>currentState := STATE_ATTACKING, mana := 1 / 2\<rparr>) - 1 \<le> 0
   \<and> mana (PlayerUpdateAttacking exampleEnv
             (examplePlayer\<lparr>currentState := STATE_ATTACKING, mana := 1 / 2\<rparr>)) = 0
   \<and> currentState (PlayerUpdateAttacking exampleEnv
             (examplePlayer\<lparr>currentState := STATE_ATTACKING, mana := 1 / 2\<rparr>)) = STATE_IDLE
   \<and> currentState (examplePlayer\<lparr>currentState := STATE_ATTACKING\<rparr>) = STATE_ATTACKING
   \<and> mana (examplePlayer\<lparr>currentState := STATE_ATTACKING\<rparr>) - 1 > 0
   \<and> mana (PlayerUpdateAttacking exampleEnv (examplePlayer\<lparr>currentState := STATE_ATTACKING\<rparr>)) = 99
   \<and> currentFrame (animation (PlayerUpdateAttacking exampleEnv
             (examplePlayer\<lparr>currentState := STATE_ATTACKING\<rparr>))) = 1"
  using update_attacking [where p = "examplePlayer\<lparr>currentState := STATE_ATTACKING, mana := 1 / 2\<rparr>"
                            and env = exampleEnv and u = id]
        update_attacking [where p = "examplePlayer\<lparr>currentState := STATE_ATTACKING\<rparr>"
                            and env = exampleEnv and u = id]
  by (simp add: examplePlayer_def exampleEnv_def nextFrame_def)

subsection \<open>The DEAD tick\<close>

lemma update_die_respawn:
  assumes "frameCount (UpdateAnimation env (animation p)) - 1
             \<le> currentFrame (UpdateAnimation env (animation p))"
      and "1 < lives p"
  shows "PlayerUpdateDie env p
         = ChangeState env Forced
             ((printf_name ''-> UPDATE -> Die'' p)
                \<lparr>animation := UpdateAnimation env (animation p), lives := lives p - 1\<rparr>)
             STATE_RESPAWN"
  using assms by (simp add: PlayerUpdateDie_def Let_def print_defs)

lemma update_die_game_over:
  assumes "frameCount (UpdateAnimation env (animation p)) - 1
             \<le> currentFrame (UpdateAnimation env (animation p))"
      and "lives p \<le> 1"
  shows "PlayerUpdateDie env p
         = ChangeState env Forced
             ((printf_name ''-> UPDATE -> Die'' p)
                \<lparr>animation := UpdateAnimation env (animation p), lives := lives p - 1,
                  position := spawnPoint p, lives := 4\<rparr>)
             STATE_IDLE"
  using assms by (simp add: PlayerUpdateDie_def Let_def print_defs)

lemma update_die_earlier:
  assumes "currentFrame (UpdateAnimation env (animation p))
             < frameCount (UpdateAnimation env (animation p)) - 1"
  shows "PlayerUpdateDie env p
         = (printf_name ''-> UPDATE -> Die'' p)\<lparr>animation := UpdateAnimation env (animation p)\<rparr>"
  using assms by (simp add: PlayerUpdateDie_def Let_def print_defs)

text \<open>
  C3. Let \<open>a\<close> be the death animation after this tick's advance. If \<open>a\<close> is on its final
  frame and more than one life is held, the tick leaves one life fewer and the entity in
  RESPAWN. If \<open>a\<close> is on its final frame and the life lost is the last one, lives is 4
  again, the position is the spawn point and the entity is in IDLE, coming straight from
  the state it was in: health, stamina and mana are not refilled, as the Entry hook of
  RESPAWN would have done. If \<open>a\<close> is before its final frame, lives and state are
  unchanged.
\<close>

theorem update_die_lives:
  "(frameCount (UpdateAnimation env (animation p)) - 1
      \<le> currentFrame (UpdateAnimation env (animation p)) \<and> 1 < lives p \<longrightarrow>
        lives (PlayerUpdateDie env p) = lives p - 1
      \<and> currentState (PlayerUpdateDie env p) = STATE_RESPAWN)
 \<and> (frameCount (UpdateAnimation env (animation p)) - 1
      \<le> currentFrame (UpdateAnimation env (animation p)) \<and> lives p \<le> 1 \<longrightarrow>
        lives (PlayerUpdateDie env p) = 4
      \<and> position (PlayerUpdateDie env p) = spawnPoint p
      \<and> currentState (PlayerUpdateDie env p) = STATE_IDLE
      \<and> previousState (PlayerUpdateDie env p) = currentState p
      \<and> health (PlayerUpdateDie env p) = health p
      \<and> stamina (PlayerUpdateDie env p) = stamina p
      \<and> mana (PlayerUpdateDie env p) = mana p)
 \<and> (currentFrame (UpdateAnimation env (animation p))
      < frameCount (UpdateAnimation env (animation p)) - 1 \<longrightarrow>
        lives (PlayerUpdateDie env p) = lives p
      \<and> currentState (PlayerUpdateDie env p) = currentState p)"
proof (intro conjI impI)
  assume h: "frameCount (UpdateAnimation env (animation p)) - 1
      \<le> currentFrame (UpdateAnimation env (animation p)) \<and> 1 < lives p"
  then have eq: "PlayerUpdateDie env p
         = ChangeState env Forced
             ((printf_name ''-> UPDATE -> Die'' p)
                \<lparr>animation := UpdateAnimation env (animation p), lives := lives p - 1\<rparr>)
             STATE_RESPAWN"
    by (intro update_die_respawn) simp_all
  show "lives (PlayerUpdateDie env p) = lives p - 1"
    by (simp add: eq ChangeState_Forced_fields)
  show "currentState (PlayerUpdateDie env p) = STATE_RESPAWN"
    by (simp add: eq ChangeState_Forced_state)
next
  assume h: "frameCount (UpdateAnimation env (animation p)) - 1
      \<le> currentFrame (UpdateAnimation env (animation p)) \<and> lives p \<le> 1"
  then have eq: "PlayerUpdateDie env p
         = ChangeState env Forced
             ((printf_name ''-> UPDATE -> Die'' p)
                \<lparr>animation := UpdateAnimation env (animation p), lives := lives p - 1,
                  position := spawnPoint p, lives := 4\<rparr>)
             STATE_IDLE"
    by (intro update_die_game_over) simp_all
  show "lives (PlayerUpdateDie env p) = 4"
    by (simp add: eq ChangeState_Forced_fields)
  show "position (PlayerUpdateDie env p) = spawnPoint p"
    by (simp add: eq ChangeState_Forced_fields_not_respawn print_defs)
  show "currentState (PlayerUpdateDie env p) = STATE_IDLE"
    by (simp add: eq ChangeState_Forced_state)
  show "previousState (PlayerUpdateDie env p) = currentState p"
    by (simp add: eq ChangeState_Forced_fields print_defs)
  show "health (PlayerUpdateDie env p) = health p"
    by (simp add: eq ChangeState_Forced_fields_not_respawn print_defs)
  show "stamina (PlayerUpdateDie env p) = stamina p"
    by (simp add: eq ChangeState_Forced_fields_not_respawn print_defs)
  show "mana (PlayerUpdateDie env p) = mana p"
    by (simp add: eq ChangeState_Forced_fields_not_respawn print_defs)
next
  assume h: "currentFrame (UpdateAnimation env (animation p))
      < frameCount (UpdateAnimation env (animation p)) - 1"
  show "lives (PlayerUpdateDie env p) = lives p"
    by (simp add: update_die_earlier [OF h] print_defs)
  show "currentState (PlayerUpdateDie env p) = currentState p"
    by (simp add: update_die_earlier [OF h] print_defs)
qed

theorem update_die_lives_witness:
  "frameCount (UpdateAnimation exampleEnv (animation (dyingPlayer 4 3))) - 1
      \<le> currentFrame (UpdateAnimation exampleEnv (animation (dyingPlayer 4 3)))
   \<and> 1 < lives (dyingPlayer 4 3)
   \<and> lives (PlayerUpdateDie exampleEnv (dyingPlayer 4 3)) = 2
   \<and> currentState (PlayerUpdateDie exampleEnv (dyingPlayer 4 3)) = STATE_RESPAWN
   \<and> frameCount (UpdateAnimation exampleEnv (animation (dyingPlayer 4 1))) - 1
      \<le> currentFrame (UpdateAnimation exampleEnv (animation (dyingPlayer 4 1)))
   \<and> lives (dyingPlayer 4 1) \<le> 1
   \<and> lives (PlayerUpdateDie exampleEnv (dyingPlayer 4 1)) = 4
   \<and> position (PlayerUpdateDie exampleEnv (dyingPlayer 4 1)) = \<lparr>vec_x = 64, vec_y = 64\<rparr>
   \<and> currentState (PlayerUpdateDie exampleEnv (dyingPlayer 4 1)) = STATE_IDLE
   \<and> health (PlayerUpdateDie exampleEnv (dyingPlayer 4 1)) = 0
   \<and> currentFrame (UpdateAnimation exampleEnv (animation (dyingPlayer 2 3)))
      < frameCount (UpdateAnimation exampleEnv (animation (dyingPlayer 2 3))) - 1
   \<and> lives (PlayerUpdateDie exampleEnv (dyingPlayer 2 3)) = 3
   \<and> currentState (PlayerUpdateDie exampleEnv (dyingPlayer 2 3)) = STATE_DEAD"
  using update_die_lives [where env = exampleEnv and p = "dyingPlayer 4 3"]
        update_die_lives [where env = exampleEnv and p = "dyingPlayer 4 1"]
        update_die_lives [where env = exampleEnv and p = "dyingPlayer 2 3"]
  by (simp add: dyingPlayer_def examplePlayer_def exampleEnv_def nextFrame_def)

subsection \<open>The WALKING and MOVING tick\<close>

lemma lastDirection_switch_fields:
  "currentState (lastDirection_switch q s) = currentState q"
  "position (lastDirection_switch q s) = position q"
  "collider (lastDirection_switch q s) = collider q"
  "animation (lastDirection_switch q s) = animation q"
  "health (lastDirection_switch q s) = health q"
  "stamina (lastDirection_switch q s) = stamina q"
  by (cases s; simp)+

lemma PlayerMove_fields:
  "currentState (PlayerMove q d) = currentState q"
  "lastDirection (PlayerMove q d) = lastDirection q"
  "animation (PlayerMove q d) = animation q"
  "health (PlayerMove q d) = health q"
  "stamina (PlayerMove q d) = stamina q"
  "position (PlayerMove q d)
     = \<lparr>vec_x = vec_x (position q) + vec_x d, vec_y = vec_y (position q) + vec_y d\<rparr>"
  by (simp_all add: PlayerMove_def Let_def)

lemma boundaryChecks_fields:
  "currentState (boundaryChecks env q) = currentState q"
  "lastDirection (boundaryChecks env q) = lastDirection q"
  "animation (boundaryChecks env q) = animation q"
  "health (boundaryChecks env q) = health q"
  "stamina (boundaryChecks env q) = stamina q"
  "c_p (collider (boundaryChecks env q)) = position (boundaryChecks env q)"
  by (simp_all add: boundaryChecks_def Let_def)

text \<open>The four checks clamp each coordinate: first from below to 32, then from above.\<close>

lemma boundaryChecks_position:
  "position (boundaryChecks env q)
   = \<lparr>vec_x = min (real_of_int (GetScreenWidth env) - 32) (max 32 (vec_x (position q))),
      vec_y = min (real_of_int (GetScreenHeight env) - 32) (max 32 (vec_y (position q)))\<rparr>"
proof -
  obtain px py where pos: "position q = \<lparr>vec_x = px, vec_y = py\<rparr>"
    by (cases "position q") simp
  show ?thesis
    unfolding boundaryChecks_def Let_def
    by (simp add: pos min_def max_def)
qed

text \<open>
  The tick when stamina stays positive, up to the two checks that end it: \<open>q\<close> is the
  player after the move, the boundary checks and the animation advance.
\<close>

lemma update_walking_moving:
  assumes "0 < stamina p - 0.05"
  obtains q where
    "health q = health p"
    "currentState q = currentState p"
    "position q = position (boundaryChecks env
                     (PlayerMove p (moveDirection_switch (currentState p) (speed p))))"
    "c_p (collider q) = position q"
    "lastDirection q = lastDirection (lastDirection_switch p (currentState p))"
    "stamina q = stamina p - 0.05"
    "PlayerUpdateWalking env p
       = (let player = (if health q \<le> 0 then ChangeState env Forced q STATE_DEAD else q)
          in if frameCount (animation player) - 1 \<le> currentFrame (animation player)
             then ChangeState env Forced player STATE_IDLE else player)"
proof -
  let ?a = "(printf_stats (printf_name ''-> UPDATE -> Walking'' p))
              \<lparr>stamina := stamina p - 0.05\<rparr>"
  let ?l = "lastDirection_switch ?a (currentState p)"
  let ?m = "boundaryChecks env (PlayerMove ?l (moveDirection_switch (currentState p) (speed p)))"
  let ?q = "?m\<lparr>animation := UpdateAnimation env (animation ?m)\<rparr>"
  have 1: "health ?q = health p" "currentState ?q = currentState p"
    by (simp_all add: boundaryChecks_fields PlayerMove_fields lastDirection_switch_fields
        print_defs)
  have "position (PlayerMove ?l (moveDirection_switch (currentState p) (speed p)))
        = position (PlayerMove p (moveDirection_switch (currentState p) (speed p)))"
    by (simp add: PlayerMove_fields lastDirection_switch_fields print_defs)
  then have 2: "position ?q = position (boundaryChecks env
                     (PlayerMove p (moveDirection_switch (currentState p) (speed p))))"
    by (simp add: boundaryChecks_position)
  have 3: "c_p (collider ?q) = position ?q"
    by (simp add: boundaryChecks_fields)
  have "lastDirection ?l = lastDirection (lastDirection_switch p (currentState p))"
    by (cases "currentState p") (simp_all add: print_defs)
  then have 4: "lastDirection ?q = lastDirection (lastDirection_switch p (currentState p))"
    by (simp add: boundaryChecks_fields PlayerMove_fields)
  have 6: "stamina ?q = stamina p - 0.05"
    by (simp add: boundaryChecks_fields PlayerMove_fields lastDirection_switch_fields)
  have 5: "PlayerUpdateWalking env p
       = (let player = (if health ?q \<le> 0 then ChangeState env Forced ?q STATE_DEAD else ?q)
          in if frameCount (animation player) - 1 \<le> currentFrame (animation player)
             then ChangeState env Forced player STATE_IDLE else player)"
    using assms by (simp add: PlayerUpdateWalking_def Let_def print_defs)
  from 1 2 3 4 6 5 show ?thesis by (rule that)
qed

text \<open>The two checks that end the tick change neither position, collider nor direction.\<close>

lemma update_walking_moving_fields:
  assumes "0 < stamina p - 0.05"
  shows "position (PlayerUpdateWalking env p)
           = position (boundaryChecks env
               (PlayerMove p (moveDirection_switch (currentState p) (speed p))))"
    and "c_p (collider (PlayerUpdateWalking env p)) = position (PlayerUpdateWalking env p)"
    and "lastDirection (PlayerUpdateWalking env p)
           = lastDirection (lastDirection_switch p (currentState p))"
proof -
  from update_walking_moving [OF assms, of env] obtain q where
    q: "position q = position (boundaryChecks env
                     (PlayerMove p (moveDirection_switch (currentState p) (speed p))))"
       "c_p (collider q) = position q"
       "lastDirection q = lastDirection (lastDirection_switch p (currentState p))"
    and eq: "PlayerUpdateWalking env p
       = (let player = (if health q \<le> 0 then ChangeState env Forced q STATE_DEAD else q)
          in if frameCount (animation player) - 1 \<le> currentFrame (animation player)
             then ChangeState env Forced player STATE_IDLE else player)"
    by blast
  have keep: "position (PlayerUpdateWalking env p) = position q
            \<and> collider (PlayerUpdateWalking env p) = collider q
            \<and> lastDirection (PlayerUpdateWalking env p) = lastDirection q"
    by (simp add: eq Let_def ChangeState_Forced_fields ChangeState_Forced_fields_not_respawn)
  show "position (PlayerUpdateWalking env p)
           = position (boundaryChecks env
               (PlayerMove p (moveDirection_switch (currentState p) (speed p))))"
    using keep q by simp
  show "c_p (collider (PlayerUpdateWalking env p)) = position (PlayerUpdateWalking env p)"
    using keep q by simp
  show "lastDirection (PlayerUpdateWalking env p)
           = lastDirection (lastDirection_switch p (currentState p))"
    using keep q by simp
qed

text \<open>
  C9. A WALKING or MOVING tick in which stamina stays positive and health is at most 0
  ends in DEAD: the Entry hook of DEAD has installed the six-frame death sequence at
  frame 0, so the animation-completion check that follows does not fire, whatever frame
  the movement animation was on.
\<close>

theorem update_walking_dead:
  assumes "0 < stamina p - 0.05" and "health p \<le> 0"
  shows "currentState (PlayerUpdateWalking env p) = STATE_DEAD"
proof -
  from update_walking_moving [OF assms(1), of env] obtain q where
    q: "health q = health p"
    and eq: "PlayerUpdateWalking env p
             = (let player = (if health q \<le> 0 then ChangeState env Forced q STATE_DEAD else q)
                in if frameCount (animation player) - 1 \<le> currentFrame (animation player)
                   then ChangeState env Forced player STATE_IDLE else player)"
    by blast
  have "PlayerUpdateWalking env p = ChangeState env Forced q STATE_DEAD"
    using assms(2) q by (simp add: eq Let_def ChangeState_dead_animation)
  then show ?thesis
    by (simp add: ChangeState_Forced_state)
qed

theorem update_walking_dead_witness:
  "0 < stamina (examplePlayer\<lparr>currentState := STATE_MOVING_LEFT, health := 0,
                  animation := \<lparr>frames = [], frameCount = 9, currentFrame = 7, frameTime = 0,
                                frameDuration = 0.1\<rparr>\<rparr>) - 0.05
   \<and> health (examplePlayer\<lparr>currentState := STATE_MOVING_LEFT, health := 0,
                  animation := \<lparr>frames = [], frameCount = 9, currentFrame = 7, frameTime = 0,
                                frameDuration = 0.1\<rparr>\<rparr>) \<le> 0
   \<and> currentState (PlayerUpdateWalking exampleEnv
        (examplePlayer\<lparr>currentState := STATE_MOVING_LEFT, health := 0,
                  animation := \<lparr>frames = [], frameCount = 9, currentFrame = 7, frameTime = 0,
                                frameDuration = 0.1\<rparr>\<rparr>)) = STATE_DEAD"
  using update_walking_dead [of "examplePlayer\<lparr>currentState := STATE_MOVING_LEFT, health := 0,
                  animation := \<lparr>frames = [], frameCount = 9, currentFrame = 7, frameTime = 0,
                                frameDuration = 0.1\<rparr>\<rparr>" exampleEnv]
  by (simp add: examplePlayer_def)

text \<open>
  C6. On a screen at least 64 wide and 64 high (twice the radius of 32, so that the
  interval from 32 to the dimension minus 32 is not empty): after a WALKING or MOVING
  tick in which stamina stays positive, the position satisfies
  \<open>32 \<le> x \<le> screenWidth - 32\<close> and \<open>32 \<le> y \<le> screenHeight - 32\<close>, from any starting
  position, and the collider's centre is the position. The upper bounds and the collider
  equation need no condition on the screen; each lower bound needs only its own
  dimension to be at least 64.
\<close>

theorem update_walking_bounds:
  assumes "0 < stamina p - 0.05"
  shows "vec_x (position (PlayerUpdateWalking env p)) \<le> real_of_int (GetScreenWidth env) - 32
       \<and> vec_y (position (PlayerUpdateWalking env p)) \<le> real_of_int (GetScreenHeight env) - 32
       \<and> c_p (collider (PlayerUpdateWalking env p)) = position (PlayerUpdateWalking env p)
       \<and> (64 \<le> GetScreenWidth env \<longrightarrow> 32 \<le> vec_x (position (PlayerUpdateWalking env p)))
       \<and> (64 \<le> GetScreenHeight env \<longrightarrow> 32 \<le> vec_y (position (PlayerUpdateWalking env p)))"
proof -
  note pos = update_walking_moving_fields(1) [OF assms, of env]
  have "vec_x (position (PlayerUpdateWalking env p)) \<le> real_of_int (GetScreenWidth env) - 32"
    by (simp add: pos boundaryChecks_position)
  moreover
  have "vec_y (position (PlayerUpdateWalking env p)) \<le> real_of_int (GetScreenHeight env) - 32"
    by (simp add: pos boundaryChecks_position)
  moreover
  have "32 \<le> vec_x (position (PlayerUpdateWalking env p))" if "64 \<le> GetScreenWidth env"
    using that by (simp add: pos boundaryChecks_position)
  moreover
  have "32 \<le> vec_y (position (PlayerUpdateWalking env p))" if "64 \<le> GetScreenHeight env"
    using that by (simp add: pos boundaryChecks_position)
  ultimately show ?thesis
    using update_walking_moving_fields(2) [OF assms, of env] by simp
qed

theorem update_walking_bounds_witness:
  "0 < stamina ((walkingPlayer STATE_MOVING_RIGHT 50)\<lparr>position := \<lparr>vec_x = 767, vec_y = 10\<rparr>\<rparr>)
         - 0.05
   \<and> 64 \<le> GetScreenWidth exampleEnv \<and> 64 \<le> GetScreenHeight exampleEnv
   \<and> vec_x (position (PlayerUpdateWalking exampleEnv
        ((walkingPlayer STATE_MOVING_RIGHT 50)\<lparr>position := \<lparr>vec_x = 767, vec_y = 10\<rparr>\<rparr>))) = 768
   \<and> vec_y (position (PlayerUpdateWalking exampleEnv
        ((walkingPlayer STATE_MOVING_RIGHT 50)\<lparr>position := \<lparr>vec_x = 767, vec_y = 10\<rparr>\<rparr>))) = 32
   \<and> c_p (collider (PlayerUpdateWalking exampleEnv
        ((walkingPlayer STATE_MOVING_RIGHT 50)\<lparr>position := \<lparr>vec_x = 767, vec_y = 10\<rparr>\<rparr>)))
       = \<lparr>vec_x = 768, vec_y = 32\<rparr>"
proof -
  let ?p = "(walkingPlayer STATE_MOVING_RIGHT 50)\<lparr>position := \<lparr>vec_x = 767, vec_y = 10\<rparr>\<rparr>"
  have st: "0 < stamina ?p - 0.05"
    by (simp add: walkingPlayer_def examplePlayer_def)
  have env: "GetScreenWidth exampleEnv = 800" "GetScreenHeight exampleEnv = 600"
    by (simp_all add: exampleEnv_def)
  have "position (PlayerUpdateWalking exampleEnv ?p)
        = position (boundaryChecks exampleEnv
            (PlayerMove ?p (moveDirection_switch (currentState ?p) (speed ?p))))"
    by (rule update_walking_moving_fields(1) [OF st])
  also have "\<dots> = \<lparr>vec_x = 768, vec_y = 32\<rparr>"
    by (simp add: boundaryChecks_position PlayerMove_fields env walkingPlayer_def
        examplePlayer_def)
  finally have pos: "position (PlayerUpdateWalking exampleEnv ?p) = \<lparr>vec_x = 768, vec_y = 32\<rparr>" .
  from update_walking_bounds [OF st, of exampleEnv] st env pos show ?thesis
    by simp
qed

text \<open>
  C8. On a tick that moves (stamina stays positive) the position is the old one plus the
  direction vector of the current state, then clamped. For the four cardinal MOVING
  states the vector has the full speed on one axis and 0 on the other, and
  \<open>lastDirection\<close> becomes that state; for the four diagonal MOVING states it has half the
  speed on each axis, and \<open>lastDirection\<close> keeps its value.
\<close>

theorem update_walking_direction:
  assumes "0 < stamina p - 0.05"
  shows "position (PlayerUpdateWalking env p)
           = position (boundaryChecks env
               (p\<lparr>position :=
                    \<lparr>vec_x = vec_x (position p)
                              + vec_x (moveDirection_switch (currentState p) (speed p)),
                     vec_y = vec_y (position p)
                              + vec_y (moveDirection_switch (currentState p) (speed p))\<rparr>\<rparr>))
       \<and> moveDirection_switch STATE_MOVING_UP v = \<lparr>vec_x = 0, vec_y = - v\<rparr>
       \<and> moveDirection_switch STATE_MOVING_DOWN v = \<lparr>vec_x = 0, vec_y = v\<rparr>
       \<and> moveDirection_switch STATE_MOVING_LEFT v = \<lparr>vec_x = - v, vec_y = 0\<rparr>
       \<and> moveDirection_switch STATE_MOVING_RIGHT v = \<lparr>vec_x = v, vec_y = 0\<rparr>
       \<and> moveDirection_switch STATE_MOVING_UP_RIGHT v = \<lparr>vec_x = v / 2, vec_y = - (v / 2)\<rparr>
       \<and> moveDirection_switch STATE_MOVING_UP_LEFT v = \<lparr>vec_x = - (v / 2), vec_y = - (v / 2)\<rparr>
       \<and> moveDirection_switch STATE_MOVING_DOWN_RIGHT v = \<lparr>vec_x = v / 2, vec_y = v / 2\<rparr>
       \<and> moveDirection_switch STATE_MOVING_DOWN_LEFT v = \<lparr>vec_x = - (v / 2), vec_y = v / 2\<rparr>
       \<and> (currentState p \<in> {STATE_MOVING_UP, STATE_MOVING_DOWN, STATE_MOVING_LEFT,
                              STATE_MOVING_RIGHT} \<longrightarrow>
            lastDirection (PlayerUpdateWalking env p) = currentState p)
       \<and> (currentState p \<in> {STATE_MOVING_UP_LEFT, STATE_MOVING_UP_RIGHT,
                              STATE_MOVING_DOWN_LEFT, STATE_MOVING_DOWN_RIGHT} \<longrightarrow>
            lastDirection (PlayerUpdateWalking env p) = lastDirection p)"
proof -
  have "position (PlayerUpdateWalking env p)
           = position (boundaryChecks env
               (PlayerMove p (moveDirection_switch (currentState p) (speed p))))"
    by (rule update_walking_moving_fields(1) [OF assms])
  also have "\<dots> = position (boundaryChecks env
               (p\<lparr>position :=
                    \<lparr>vec_x = vec_x (position p)
                              + vec_x (moveDirection_switch (currentState p) (speed p)),
                     vec_y = vec_y (position p)
                              + vec_y (moveDirection_switch (currentState p) (speed p))\<rparr>\<rparr>))"
    by (simp add: boundaryChecks_position PlayerMove_fields)
  finally have pos: "position (PlayerUpdateWalking env p)
           = position (boundaryChecks env
               (p\<lparr>position :=
                    \<lparr>vec_x = vec_x (position p)
                              + vec_x (moveDirection_switch (currentState p) (speed p)),
                     vec_y = vec_y (position p)
                              + vec_y (moveDirection_switch (currentState p) (speed p))\<rparr>\<rparr>))" .
  note last = update_walking_moving_fields(3) [OF assms, of env]
  have card: "lastDirection (PlayerUpdateWalking env p) = currentState p"
    if "currentState p \<in> {STATE_MOVING_UP, STATE_MOVING_DOWN, STATE_MOVING_LEFT,
                            STATE_MOVING_RIGHT}"
    using that by (auto simp add: last)
  have diag: "lastDirection (PlayerUpdateWalking env p) = lastDirection p"
    if "currentState p \<in> {STATE_MOVING_UP_LEFT, STATE_MOVING_UP_RIGHT,
                            STATE_MOVING_DOWN_LEFT, STATE_MOVING_DOWN_RIGHT}"
    using that by (auto simp add: last)
  from pos card diag show ?thesis
    by simp
qed

theorem update_walking_direction_witness:
  "0 < stamina (walkingPlayer STATE_MOVING_LEFT 50) - 0.05
   \<and> currentState (walkingPlayer STATE_MOVING_LEFT 50)
        \<in> {STATE_MOVING_UP, STATE_MOVING_DOWN, STATE_MOVING_LEFT, STATE_MOVING_RIGHT}
   \<and> position (PlayerUpdateWalking exampleEnv (walkingPlayer STATE_MOVING_LEFT 50))
        = \<lparr>vec_x = 398, vec_y = 300\<rparr>
   \<and> lastDirection (PlayerUpdateWalking exampleEnv (walkingPlayer STATE_MOVING_LEFT 50))
        = STATE_MOVING_LEFT
   \<and> 0 < stamina (walkingPlayer STATE_MOVING_DOWN_RIGHT 50) - 0.05
   \<and> currentState (walkingPlayer STATE_MOVING_DOWN_RIGHT 50)
        \<in> {STATE_MOVING_UP_LEFT, STATE_MOVING_UP_RIGHT, STATE_MOVING_DOWN_LEFT,
            STATE_MOVING_DOWN_RIGHT}
   \<and> position (PlayerUpdateWalking exampleEnv (walkingPlayer STATE_MOVING_DOWN_RIGHT 50))
        = \<lparr>vec_x = 401, vec_y = 301\<rparr>
   \<and> lastDirection (PlayerUpdateWalking exampleEnv (walkingPlayer STATE_MOVING_DOWN_RIGHT 50))
        = STATE_MOVING_DOWN"
proof -
  have st: "0 < stamina (walkingPlayer STATE_MOVING_LEFT 50) - 0.05"
           "0 < stamina (walkingPlayer STATE_MOVING_DOWN_RIGHT 50) - 0.05"
    by (simp_all add: walkingPlayer_def examplePlayer_def)
  from update_walking_direction [OF st(1), of exampleEnv]
       update_walking_direction [OF st(2), of exampleEnv] st
  show ?thesis
    by (simp add: boundaryChecks_position walkingPlayer_def examplePlayer_def exampleEnv_def)
qed

lemma walking_tick_depleted:
  assumes "stamina p - 0.05 \<le> 0"
  shows "PlayerUpdateWalking env p
         = ChangeState env Forced
             ((printf_stats (printf_name ''-> UPDATE -> Walking'' p))\<lparr>stamina := 0\<rparr>)
             STATE_IDLE"
  using assms by (simp add: PlayerUpdateWalking_def Let_def print_defs)

text \<open>
  C5, as amended. Every WALKING or MOVING tick first deducts 0.05 from stamina: when the
  result is positive, it is the stamina at the end of the tick. When the result is at
  most 0, stamina becomes 0, the entity is in IDLE at the end of the tick and the rest of
  the tick is skipped: position, collider and \<open>lastDirection\<close> are unchanged and the
  animator is not called (the result is the same for every animator \<open>u\<close>). The
  animation cursor does change: the Entry hook of IDLE replaces it by a freshly installed
  idle sequence of eight frames, at frame 0.
\<close>

theorem update_walking_depleted:
  assumes "currentState p \<in> {STATE_WALKING, STATE_MOVING_UP, STATE_MOVING_DOWN,
             STATE_MOVING_LEFT, STATE_MOVING_RIGHT, STATE_MOVING_UP_LEFT,
             STATE_MOVING_UP_RIGHT, STATE_MOVING_DOWN_LEFT, STATE_MOVING_DOWN_RIGHT}"
  shows "(0 < stamina p - 0.05 \<longrightarrow>
            stamina (PlayerUpdateWalking env p) = stamina p - 0.05)
       \<and> (stamina p - 0.05 \<le> 0 \<longrightarrow>
            stamina (PlayerUpdateWalking env p) = 0
          \<and> currentState (PlayerUpdateWalking env p) = STATE_IDLE
          \<and> position (PlayerUpdateWalking env p) = position p
          \<and> collider (PlayerUpdateWalking env p) = collider p
          \<and> lastDirection (PlayerUpdateWalking env p) = lastDirection p
          \<and> PlayerUpdateWalking (env\<lparr>UpdateAnimation := u\<rparr>) p = PlayerUpdateWalking env p
          \<and> animation (PlayerUpdateWalking env p) = animation (SelectRandomIdleAnimation env p)
          \<and> frameCount (animation (PlayerUpdateWalking env p)) = 8
          \<and> currentFrame (animation (PlayerUpdateWalking env p)) = 0)"
proof (intro conjI impI)
  assume pos: "0 < stamina p - 0.05"
  from update_walking_moving [OF pos, of env] obtain q where
    q: "stamina q = stamina p - 0.05"
    and eq: "PlayerUpdateWalking env p
       = (let player = (if health q \<le> 0 then ChangeState env Forced q STATE_DEAD else q)
          in if frameCount (animation player) - 1 \<le> currentFrame (animation player)
             then ChangeState env Forced player STATE_IDLE else player)"
    by blast
  have "stamina (PlayerUpdateWalking env p) = stamina q"
    by (simp add: eq Let_def ChangeState_Forced_fields_not_respawn)
  with q show "stamina (PlayerUpdateWalking env p) = stamina p - 0.05"
    by simp
next
  assume depleted: "stamina p - 0.05 \<le> 0"
  let ?d = "(printf_stats (printf_name ''-> UPDATE -> Walking'' p))\<lparr>stamina := 0\<rparr>"
  note eq = walking_tick_depleted [OF depleted]
  have d: "currentState ?d \<noteq> STATE_IDLE"
    using assms by (auto simp add: print_defs)
  have fields: "stamina ?d = 0" "position ?d = position p" "collider ?d = collider p"
               "lastDirection ?d = lastDirection p"
    by (simp_all add: print_defs)
  show "stamina (PlayerUpdateWalking env p) = 0"
    by (simp only: eq ChangeState_Forced_fields_not_respawn fields State.distinct
        not_False_eq_True)
  show "currentState (PlayerUpdateWalking env p) = STATE_IDLE"
    by (simp only: eq ChangeState_Forced_state)
  show "position (PlayerUpdateWalking env p) = position p"
    by (simp only: eq ChangeState_Forced_fields_not_respawn fields State.distinct
        not_False_eq_True)
  show "collider (PlayerUpdateWalking env p) = collider p"
    by (simp only: eq ChangeState_Forced_fields fields)
  show "lastDirection (PlayerUpdateWalking env p) = lastDirection p"
    by (simp only: eq ChangeState_Forced_fields fields)
  show "PlayerUpdateWalking (env\<lparr>UpdateAnimation := u\<rparr>) p = PlayerUpdateWalking env p"
    by (simp only: eq ChangeState_ignores_animator)
  show anim: "animation (PlayerUpdateWalking env p)
              = animation (SelectRandomIdleAnimation env p)"
    using animation_ChangeState_idle [OF d] select_animation_cong by (simp add: eq)
  show "frameCount (animation (PlayerUpdateWalking env p)) = 8"
    by (simp add: anim idle_animation_fresh)
  show "currentFrame (animation (PlayerUpdateWalking env p)) = 0"
    by (simp add: anim idle_animation_fresh)
qed

theorem update_walking_depleted_witness:
  "currentState (walkingPlayer STATE_MOVING_UP 0.03)
        \<in> {STATE_WALKING, STATE_MOVING_UP, STATE_MOVING_DOWN,
             STATE_MOVING_LEFT, STATE_MOVING_RIGHT, STATE_MOVING_UP_LEFT,
             STATE_MOVING_UP_RIGHT, STATE_MOVING_DOWN_LEFT, STATE_MOVING_DOWN_RIGHT}
   \<and> stamina (walkingPlayer STATE_MOVING_UP 0.03) - 0.05 \<le> 0
   \<and> stamina (PlayerUpdateWalking exampleEnv (walkingPlayer STATE_MOVING_UP 0.03)) = 0
   \<and> currentState (PlayerUpdateWalking exampleEnv (walkingPlayer STATE_MOVING_UP 0.03))
        = STATE_IDLE
   \<and> position (PlayerUpdateWalking exampleEnv (walkingPlayer STATE_MOVING_UP 0.03))
        = \<lparr>vec_x = 400, vec_y = 300\<rparr>
   \<and> lastDirection (PlayerUpdateWalking exampleEnv (walkingPlayer STATE_MOVING_UP 0.03))
        = STATE_MOVING_DOWN
   \<and> currentFrame (animation (PlayerUpdateWalking exampleEnv
        (walkingPlayer STATE_MOVING_UP 0.03))) = 0
   \<and> currentState (walkingPlayer STATE_WALKING 50)
        \<in> {STATE_WALKING, STATE_MOVING_UP, STATE_MOVING_DOWN,
             STATE_MOVING_LEFT, STATE_MOVING_RIGHT, STATE_MOVING_UP_LEFT,
             STATE_MOVING_UP_RIGHT, STATE_MOVING_DOWN_LEFT, STATE_MOVING_DOWN_RIGHT}
   \<and> 0 < stamina (walkingPlayer STATE_WALKING 50) - 0.05
   \<and> stamina (PlayerUpdateWalking exampleEnv (walkingPlayer STATE_WALKING 50)) = 49.95"
proof -
  have st: "currentState (walkingPlayer STATE_MOVING_UP 0.03)
        \<in> {STATE_WALKING, STATE_MOVING_UP, STATE_MOVING_DOWN,
             STATE_MOVING_LEFT, STATE_MOVING_RIGHT, STATE_MOVING_UP_LEFT,
             STATE_MOVING_UP_RIGHT, STATE_MOVING_DOWN_LEFT, STATE_MOVING_DOWN_RIGHT}"
           "currentState (walkingPlayer STATE_WALKING 50)
        \<in> {STATE_WALKING, STATE_MOVING_UP, STATE_MOVING_DOWN,
             STATE_MOVING_LEFT, STATE_MOVING_RIGHT, STATE_MOVING_UP_LEFT,
             STATE_MOVING_UP_RIGHT, STATE_MOVING_DOWN_LEFT, STATE_MOVING_DOWN_RIGHT}"
    by (simp_all add: walkingPlayer_def examplePlayer_def)
  have low: "stamina (walkingPlayer STATE_MOVING_UP 0.03) - 0.05 \<le> 0"
    by (simp add: walkingPlayer_def examplePlayer_def)
  have high: "0 < stamina (walkingPlayer STATE_WALKING 50) - 0.05"
    by (simp add: walkingPlayer_def examplePlayer_def)
  from update_walking_depleted [OF st(1), where env = exampleEnv and u = nextFrame] low
  have A: "stamina (PlayerUpdateWalking exampleEnv (walkingPlayer STATE_MOVING_UP 0.03)) = 0"
          "currentState (PlayerUpdateWalking exampleEnv (walkingPlayer STATE_MOVING_UP 0.03))
             = STATE_IDLE"
          "position (PlayerUpdateWalking exampleEnv (walkingPlayer STATE_MOVING_UP 0.03))
             = position (walkingPlayer STATE_MOVING_UP 0.03)"
          "lastDirection (PlayerUpdateWalking exampleEnv (walkingPlayer STATE_MOVING_UP 0.03))
             = lastDirection (walkingPlayer STATE_MOVING_UP 0.03)"
          "currentFrame (animation (PlayerUpdateWalking exampleEnv
             (walkingPlayer STATE_MOVING_UP 0.03))) = 0"
    by blast+
  from update_walking_depleted [OF st(2), where env = exampleEnv and u = nextFrame] high
  have "stamina (PlayerUpdateWalking exampleEnv (walkingPlayer STATE_WALKING 50))
        = stamina (walkingPlayer STATE_WALKING 50) - 0.05"
    by blast
  also have "\<dots> = 49.95"
    by (simp add: walkingPlayer_def examplePlayer_def)
  finally have B: "stamina (PlayerUpdateWalking exampleEnv (walkingPlayer STATE_WALKING 50))
                   = 49.95" .
  from A B st low high show ?thesis
    by (simp add: walkingPlayer_def examplePlayer_def)
qed

text \<open>
  The claim as stated, with the animation cursor among the things the depleted tick
  leaves unchanged, fails: a player moving up on frame 3 of the nine-frame walk sequence
  ends the tick on frame 0 of an eight-frame idle sequence.
\<close>

theorem update_walking_depleted_counterexample:
  "stamina (walkingPlayer STATE_MOVING_UP 0.03) - 0.05 \<le> 0
   \<and> currentFrame (animation (walkingPlayer STATE_MOVING_UP 0.03)) = 3
   \<and> frameCount (animation (walkingPlayer STATE_MOVING_UP 0.03)) = 9
   \<and> currentFrame (animation (PlayerUpdateWalking exampleEnv
        (walkingPlayer STATE_MOVING_UP 0.03))) = 0
   \<and> frameCount (animation (PlayerUpdateWalking exampleEnv
        (walkingPlayer STATE_MOVING_UP 0.03))) = 8
   \<and> animation (PlayerUpdateWalking exampleEnv (walkingPlayer STATE_MOVING_UP 0.03))
       \<noteq> animation (walkingPlayer STATE_MOVING_UP 0.03)"
proof -
  let ?p = "walkingPlayer STATE_MOVING_UP 0.03"
  have h: "stamina ?p - 0.05 \<le> 0"
    by (simp add: walkingPlayer_def examplePlayer_def)
  have before: "currentFrame (animation ?p) = 3" "frameCount (animation ?p) = 9"
    by (simp_all add: walkingPlayer_def examplePlayer_def)
  have d: "currentState ((printf_stats (printf_name ''-> UPDATE -> Walking'' ?p))
             \<lparr>stamina := 0\<rparr>) \<noteq> STATE_IDLE"
    by (simp add: print_defs walkingPlayer_def examplePlayer_def)
  have after: "currentFrame (animation (PlayerUpdateWalking exampleEnv ?p)) = 0"
              "frameCount (animation (PlayerUpdateWalking exampleEnv ?p)) = 8"
    by (simp_all only: walking_tick_depleted [OF h] animation_ChangeState_idle [OF d]
        idle_animation_fresh)
  from after before have "animation (PlayerUpdateWalking exampleEnv ?p) \<noteq> animation ?p"
    by auto
  with h before after show ?thesis by simp
qed

subsection \<open>Events in SHIELD\<close>

lemma select_idle_keeps:
  "stdout (SelectRandomIdleAnimation env q) = stdout q"
  "shieldActive (SelectRandomIdleAnimation env q) = shieldActive q"
  by (simp_all add: SelectRandomIdleAnimation_def InitGameObjectAnimation_def Let_def)

lemma enter_idle_output:
  "stdout (PlayerEnterIdle env q)
     = stdout q @ [Printf_name (name q) ''-> ENTER -> Idle'', Printf_stats (stamina q) (mana q)]"
  "shieldActive (PlayerEnterIdle env q) = shieldActive q"
  by (simp_all add: PlayerEnterIdle_def Let_def select_idle_keeps print_defs)

lemma enter_die_output:
  "stdout (PlayerEnterDie q) = stdout q @ [Printf_name (name q) ''-> ENTER -> Die'']"
  "shieldActive (PlayerEnterDie q) = shieldActive q"
  by (simp_all add: PlayerEnterDie_def InitGameObjectAnimation_def Let_def print_defs)

lemma exit_shield_output:
  "stdout (PlayerExitShield q)
     = stdout q @ [Printf_name (name q) ''<- EXIT <- Shield'', Printf_stats (stamina q) (mana q)]"
  "shieldActive (PlayerExitShield q) = False"
  "name (PlayerExitShield q) = name q"
  "stamina (PlayerExitShield q) = stamina q"
  "mana (PlayerExitShield q) = mana q"
  by (simp_all add: PlayerExitShield_def Let_def print_defs)

text \<open>Leaving SHIELD on an event: the Exit hook of SHIELD, then the Entry hook.\<close>

lemma shield_change_state:
  assumes "currentState q = STATE_SHIELD" and "s = STATE_IDLE \<or> s = STATE_DEAD"
  shows "ChangeState env EventDriven q s
         = Entry env s ((PlayerExitShield q)\<lparr>previousState := STATE_SHIELD, currentState := s\<rparr>)"
  using assms
  by (auto simp add: ChangeState_def TransitionAllowed_def Let_def PlayerExitShield_def
      print_defs)

lemma shield_leave_output:
  assumes "currentState q = STATE_SHIELD" and "s = STATE_IDLE \<or> s = STATE_DEAD"
  shows "currentState (ChangeState env EventDriven q s) = s"
    and "shieldActive (ChangeState env EventDriven q s) = False"
    and "count_list (stdout (ChangeState env EventDriven q s))
           (Printf_name (name q) ''<- EXIT <- Shield'')
         = count_list (stdout q) (Printf_name (name q) ''<- EXIT <- Shield'') + 1"
proof -
  note eq = shield_change_state [OF assms]
  show "currentState (ChangeState env EventDriven q s) = s"
    by (simp add: eq Entry_fields)
  show "shieldActive (ChangeState env EventDriven q s) = False"
    using assms(2) by (auto simp add: eq enter_idle_output enter_die_output exit_shield_output)
  show "count_list (stdout (ChangeState env EventDriven q s))
           (Printf_name (name q) ''<- EXIT <- Shield'')
         = count_list (stdout q) (Printf_name (name q) ''<- EXIT <- Shield'') + 1"
    using assms(2) by (auto simp add: eq enter_idle_output enter_die_output exit_shield_output)
qed

text \<open>Ticks of an idle entity: no hook runs, nothing is printed, the flag is not touched.\<close>

lemma Tick_idle:
  "currentState q = STATE_IDLE \<Longrightarrow> Tick env q = PlayerUpdateIdle env q"
  by (simp add: Tick_def)

lemma idle_ticks:
  assumes "currentState q = STATE_IDLE"
  shows "currentState ((Tick env ^^ n) q) = STATE_IDLE
       \<and> shieldActive ((Tick env ^^ n) q) = shieldActive q
       \<and> stdout ((Tick env ^^ n) q) = stdout q"
proof (induction n)
  case 0
  show ?case using assms by simp
next
  case (Suc n)
  then have "Tick env ((Tick env ^^ n) q) = PlayerUpdateIdle env ((Tick env ^^ n) q)"
    by (simp add: Tick_idle)
  with Suc show ?case
    by (simp add: PlayerUpdateIdle_def Let_def)
qed

text \<open>
  A forced change out of DEAD or RESPAWN, into RESPAWN or IDLE: neither hook touches the
  flag, and none of the lines printed is the exit line of SHIELD.
\<close>

lemma forced_leave_output:
  assumes "currentState q = STATE_DEAD \<or> currentState q = STATE_RESPAWN"
      and "s = STATE_RESPAWN \<or> s = STATE_IDLE"
  shows "shieldActive (ChangeState env Forced q s) = shieldActive q"
    and "count_list (stdout (ChangeState env Forced q s)) (Printf_name nm ''<- EXIT <- Shield'')
         = count_list (stdout q) (Printf_name nm ''<- EXIT <- Shield'')"
  using assms
  by (auto simp add: ChangeState_def Let_def PlayerExitDie_def PlayerExitRespawn_def
      PlayerEnterRespawn_def InitGameObjectAnimation_def enter_idle_output print_defs)

lemma Tick_dead:
  "currentState q = STATE_DEAD \<Longrightarrow> Tick env q = PlayerUpdateDie env q"
  by (simp add: Tick_def)

lemma Tick_respawn:
  "currentState q = STATE_RESPAWN \<Longrightarrow> Tick env q = PlayerUpdateRespawn env q"
  by (simp add: Tick_def)

lemma update_die_output:
  assumes "currentState q = STATE_DEAD"
  shows "currentState (PlayerUpdateDie env q) \<in> {STATE_IDLE, STATE_DEAD, STATE_RESPAWN}"
    and "shieldActive (PlayerUpdateDie env q) = shieldActive q"
    and "count_list (stdout (PlayerUpdateDie env q)) (Printf_name nm ''<- EXIT <- Shield'')
         = count_list (stdout q) (Printf_name nm ''<- EXIT <- Shield'')"
  using assms
  by (simp_all add: PlayerUpdateDie_def Let_def ChangeState_Forced_state forced_leave_output
      print_defs)

lemma update_respawn_output:
  assumes "currentState q = STATE_RESPAWN"
  shows "currentState (PlayerUpdateRespawn env q) \<in> {STATE_IDLE, STATE_DEAD, STATE_RESPAWN}"
    and "shieldActive (PlayerUpdateRespawn env q) = shieldActive q"
    and "count_list (stdout (PlayerUpdateRespawn env q)) (Printf_name nm ''<- EXIT <- Shield'')
         = count_list (stdout q) (Printf_name nm ''<- EXIT <- Shield'')"
  using assms
  by (simp_all add: PlayerUpdateRespawn_def Let_def ChangeState_Forced_state
      forced_leave_output print_defs)

text \<open>
  Ticks of an entity that is dead, respawning or idle: it stays among these three states,
  the flag is not touched and no exit line of SHIELD is printed.
\<close>

lemma away_from_shield_ticks:
  assumes "currentState q \<in> {STATE_IDLE, STATE_DEAD, STATE_RESPAWN}"
  shows "currentState ((Tick env ^^ n) q) \<in> {STATE_IDLE, STATE_DEAD, STATE_RESPAWN}
       \<and> shieldActive ((Tick env ^^ n) q) = shieldActive q
       \<and> count_list (stdout ((Tick env ^^ n) q)) (Printf_name nm ''<- EXIT <- Shield'')
           = count_list (stdout q) (Printf_name nm ''<- EXIT <- Shield'')"
proof (induction n)
  case 0
  show ?case using assms by simp
next
  case (Suc n)
  let ?r = "(Tick env ^^ n) q"
  from Suc consider "currentState ?r = STATE_IDLE" | "currentState ?r = STATE_DEAD"
    | "currentState ?r = STATE_RESPAWN"
    by auto
  then have "currentState (Tick env ?r) \<in> {STATE_IDLE, STATE_DEAD, STATE_RESPAWN}
       \<and> shieldActive (Tick env ?r) = shieldActive ?r
       \<and> count_list (stdout (Tick env ?r)) (Printf_name nm ''<- EXIT <- Shield'')
           = count_list (stdout ?r) (Printf_name nm ''<- EXIT <- Shield'')"
  proof cases
    case 1
    then show ?thesis
      by (simp add: Tick_idle PlayerUpdateIdle_def Let_def)
  next
    case 2
    then show ?thesis
      using update_die_output [OF 2] by (simp add: Tick_dead)
  next
    case 3
    then show ?thesis
      using update_respawn_output [OF 3] by (simp add: Tick_respawn)
  qed
  with Suc show ?case
    by simp
qed

text \<open>
  C7. For an entity in SHIELD, each of the eight directional MOVE events takes it to IDLE
  and DIE takes it to DEAD; every other event changes no field of the entity (the handler
  only prints its two lines). On a transition out of SHIELD, to IDLE or to DEAD, the Exit
  hook runs once: the output gains exactly one exit line of SHIELD, and the shield-active
  flag is false. The \<open>n\<close> ticks that follow, in IDLE or through DEAD, RESPAWN and IDLE,
  print no further exit line and leave the flag false.
\<close>

theorem shield_handle_event:
  assumes "currentState p = STATE_SHIELD"
  shows "(e \<in> {EVENT_MOVE_UP, EVENT_MOVE_DOWN, EVENT_MOVE_LEFT, EVENT_MOVE_RIGHT,
               EVENT_MOVE_UP_LEFT, EVENT_MOVE_UP_RIGHT, EVENT_MOVE_DOWN_LEFT,
               EVENT_MOVE_DOWN_RIGHT} \<longrightarrow>
            currentState (PlayerShieldHandleEvent env p e) = STATE_IDLE
          \<and> shieldActive (PlayerShieldHandleEvent env p e) = False
          \<and> count_list (stdout (PlayerShieldHandleEvent env p e))
               (Printf_name (name p) ''<- EXIT <- Shield'')
             = count_list (stdout p) (Printf_name (name p) ''<- EXIT <- Shield'') + 1
          \<and> shieldActive ((Tick env ^^ n) (PlayerShieldHandleEvent env p e)) = False
          \<and> count_list (stdout ((Tick env ^^ n) (PlayerShieldHandleEvent env p e)))
               (Printf_name (name p) ''<- EXIT <- Shield'')
             = count_list (stdout p) (Printf_name (name p) ''<- EXIT <- Shield'') + 1)
       \<and> (e = EVENT_DIE \<longrightarrow>
            currentState (PlayerShieldHandleEvent env p e) = STATE_DEAD
          \<and> shieldActive (PlayerShieldHandleEvent env p e) = False
          \<and> count_list (stdout (PlayerShieldHandleEvent env p e))
               (Printf_name (name p) ''<- EXIT <- Shield'')
             = count_list (stdout p) (Printf_name (name p) ''<- EXIT <- Shield'') + 1
          \<and> shieldActive ((Tick env ^^ n) (PlayerShieldHandleEvent env p e)) = False
          \<and> count_list (stdout ((Tick env ^^ n) (PlayerShieldHandleEvent env p e)))
               (Printf_name (name p) ''<- EXIT <- Shield'')
             = count_list (stdout p) (Printf_name (name p) ''<- EXIT <- Shield'') + 1)
       \<and> (e \<in> {EVENT_NONE, EVENT_MOVE, EVENT_ATTACK, EVENT_DEFEND, EVENT_SHIELD,
                EVENT_RESPAWN, EVENT_COLLISION_START, EVENT_COLLISION_END, EVENT_COUNT} \<longrightarrow>
            PlayerShieldHandleEvent env p e
            = p\<lparr>stdout := stdout p @ [Printf_name (name p) ''Shield HandleEvent'',
                                        Printf_stats (stamina p) (mana p)]\<rparr>)"
proof -
  let ?q = "printf_stats (printf_name ''Shield HandleEvent'' p)"
  let ?x = "Printf_name (name p) ''<- EXIT <- Shield''"
  have q: "currentState ?q = STATE_SHIELD" "name ?q = name p"
          "count_list (stdout ?q) ?x = count_list (stdout p) ?x"
    using assms by (simp_all add: print_defs)
  have move: "PlayerShieldHandleEvent env p e = ChangeState env EventDriven ?q STATE_IDLE"
    if "e \<in> {EVENT_MOVE_UP, EVENT_MOVE_DOWN, EVENT_MOVE_LEFT, EVENT_MOVE_RIGHT,
               EVENT_MOVE_UP_LEFT, EVENT_MOVE_UP_RIGHT, EVENT_MOVE_DOWN_LEFT,
               EVENT_MOVE_DOWN_RIGHT}"
    using that by (auto simp add: PlayerShieldHandleEvent_def)
  have die: "PlayerShieldHandleEvent env p EVENT_DIE = ChangeState env EventDriven ?q STATE_DEAD"
    by (simp add: PlayerShieldHandleEvent_def)
  have other: "PlayerShieldHandleEvent env p e = ?q"
    if "e \<in> {EVENT_NONE, EVENT_MOVE, EVENT_ATTACK, EVENT_DEFEND, EVENT_SHIELD,
                EVENT_RESPAWN, EVENT_COLLISION_START, EVENT_COLLISION_END, EVENT_COUNT}"
    using that by (auto simp add: PlayerShieldHandleEvent_def)
  note idle = shield_leave_output [OF q(1), where s = STATE_IDLE and env = env, simplified,
      unfolded q]
  note dead = shield_leave_output [OF q(1), where s = STATE_DEAD and env = env, simplified,
      unfolded q]
  have A: "currentState (PlayerShieldHandleEvent env p e) = STATE_IDLE
          \<and> shieldActive (PlayerShieldHandleEvent env p e) = False
          \<and> count_list (stdout (PlayerShieldHandleEvent env p e)) ?x
             = count_list (stdout p) ?x + 1
          \<and> shieldActive ((Tick env ^^ n) (PlayerShieldHandleEvent env p e)) = False
          \<and> count_list (stdout ((Tick env ^^ n) (PlayerShieldHandleEvent env p e))) ?x
             = count_list (stdout p) ?x + 1"
    if "e \<in> {EVENT_MOVE_UP, EVENT_MOVE_DOWN, EVENT_MOVE_LEFT, EVENT_MOVE_RIGHT,
               EVENT_MOVE_UP_LEFT, EVENT_MOVE_UP_RIGHT, EVENT_MOVE_DOWN_LEFT,
               EVENT_MOVE_DOWN_RIGHT}"
  proof -
    have now: "currentState (PlayerShieldHandleEvent env p e) = STATE_IDLE"
              "shieldActive (PlayerShieldHandleEvent env p e) = False"
              "count_list (stdout (PlayerShieldHandleEvent env p e)) ?x
                 = count_list (stdout p) ?x + 1"
      using idle by (simp_all only: move [OF that])
    from idle_ticks [OF now(1), where env = env and n = n] now show ?thesis
      by simp
  qed
  have B: "currentState (PlayerShieldHandleEvent env p e) = STATE_DEAD
          \<and> shieldActive (PlayerShieldHandleEvent env p e) = False
          \<and> count_list (stdout (PlayerShieldHandleEvent env p e)) ?x
             = count_list (stdout p) ?x + 1
          \<and> shieldActive ((Tick env ^^ n) (PlayerShieldHandleEvent env p e)) = False
          \<and> count_list (stdout ((Tick env ^^ n) (PlayerShieldHandleEvent env p e))) ?x
             = count_list (stdout p) ?x + 1"
    if "e = EVENT_DIE"
  proof -
    have now: "currentState (PlayerShieldHandleEvent env p e) = STATE_DEAD"
              "shieldActive (PlayerShieldHandleEvent env p e) = False"
              "count_list (stdout (PlayerShieldHandleEvent env p e)) ?x
                 = count_list (stdout p) ?x + 1"
      using dead by (simp_all only: that die)
    then have "currentState (PlayerShieldHandleEvent env p e)
                 \<in> {STATE_IDLE, STATE_DEAD, STATE_RESPAWN}"
      by simp
    from away_from_shield_ticks [OF this, where env = env and n = n and nm = "name p"] now
    show ?thesis
      by simp
  qed
  have C: "PlayerShieldHandleEvent env p e
            = p\<lparr>stdout := stdout p @ [Printf_name (name p) ''Shield HandleEvent'',
                                        Printf_stats (stamina p) (mana p)]\<rparr>"
    if "e \<in> {EVENT_NONE, EVENT_MOVE, EVENT_ATTACK, EVENT_DEFEND, EVENT_SHIELD,
                EVENT_RESPAWN, EVENT_COLLISION_START, EVENT_COLLISION_END, EVENT_COUNT}"
    by (simp add: other [OF that] print_defs)
  from A B C show ?thesis by blast
qed

theorem shield_handle_event_witness:
  "currentState shieldingPlayer = STATE_SHIELD
   \<and> shieldActive shieldingPlayer
   \<and> EVENT_MOVE_LEFT \<in> {EVENT_MOVE_UP, EVENT_MOVE_DOWN, EVENT_MOVE_LEFT, EVENT_MOVE_RIGHT,
               EVENT_MOVE_UP_LEFT, EVENT_MOVE_UP_RIGHT, EVENT_MOVE_DOWN_LEFT,
               EVENT_MOVE_DOWN_RIGHT}
   \<and> currentState (PlayerShieldHandleEvent exampleEnv shieldingPlayer EVENT_MOVE_LEFT)
       = STATE_IDLE
   \<and> shieldActive (PlayerShieldHandleEvent exampleEnv shieldingPlayer EVENT_MOVE_LEFT) = False
   \<and> count_list (stdout (PlayerShieldHandleEvent exampleEnv shieldingPlayer EVENT_MOVE_LEFT))
        (Printf_name ''Player'' ''<- EXIT <- Shield'') = 1
   \<and> shieldActive ((Tick exampleEnv ^^ 3)
        (PlayerShieldHandleEvent exampleEnv shieldingPlayer EVENT_MOVE_LEFT)) = False
   \<and> count_list (stdout ((Tick exampleEnv ^^ 3)
        (PlayerShieldHandleEvent exampleEnv shieldingPlayer EVENT_MOVE_LEFT)))
        (Printf_name ''Player'' ''<- EXIT <- Shield'') = 1
   \<and> currentState (PlayerShieldHandleEvent exampleEnv shieldingPlayer EVENT_DIE) = STATE_DEAD
   \<and> shieldActive (PlayerShieldHandleEvent exampleEnv shieldingPlayer EVENT_DIE) = False
   \<and> shieldActive ((Tick exampleEnv ^^ 12)
        (PlayerShieldHandleEvent exampleEnv shieldingPlayer EVENT_DIE)) = False
   \<and> count_list (stdout ((Tick exampleEnv ^^ 12)
        (PlayerShieldHandleEvent exampleEnv shieldingPlayer EVENT_DIE)))
        (Printf_name ''Player'' ''<- EXIT <- Shield'') = 1
   \<and> EVENT_ATTACK \<in> {EVENT_NONE, EVENT_MOVE, EVENT_ATTACK, EVENT_DEFEND, EVENT_SHIELD,
                EVENT_RESPAWN, EVENT_COLLISION_START, EVENT_COLLISION_END, EVENT_COUNT}
   \<and> PlayerShieldHandleEvent exampleEnv shieldingPlayer EVENT_ATTACK
       = shieldingPlayer\<lparr>stdout := [Printf_name ''Player'' ''Shield HandleEvent'',
                                      Printf_stats 100 100]\<rparr>"
proof -
  have sh: "currentState shieldingPlayer = STATE_SHIELD"
    by (simp add: shieldingPlayer_def)
  have vals: "name shieldingPlayer = ''Player''" "stdout shieldingPlayer = []"
             "stamina shieldingPlayer = 100" "mana shieldingPlayer = 100"
             "shieldActive shieldingPlayer"
    by (simp_all add: shieldingPlayer_def examplePlayer_def)
  from shield_handle_event [OF sh, where e = EVENT_MOVE_LEFT and env = exampleEnv and n = 3]
       shield_handle_event [OF sh, where e = EVENT_DIE and env = exampleEnv and n = 12]
       shield_handle_event [OF sh, where e = EVENT_ATTACK and env = exampleEnv and n = 0]
       sh vals
  show ?thesis
    by simp
qed

subsection \<open>The SHIELD tick and the stamina pool\<close>

lemma update_shield_holds:
  assumes "currentState q = STATE_SHIELD" and "0 < stamina q - 0.05"
  shows "currentState (PlayerUpdateShield env q) = STATE_SHIELD"
    and "stamina (PlayerUpdateShield env q) = stamina q - 0.05"
  using assms by (simp_all add: PlayerUpdateShield_def Let_def print_defs)

lemma update_shield_depleted:
  assumes "stamina q - 0.05 \<le> 0"
  shows "currentState (PlayerUpdateShield env q) = STATE_IDLE"
    and "stamina (PlayerUpdateShield env q) = stamina q - 0.05"
  using assms
  by (simp_all add: PlayerUpdateShield_def Let_def print_defs ChangeState_Forced_state
      ChangeState_Forced_fields_not_respawn)

lemma Tick_shield:
  "currentState q = STATE_SHIELD \<Longrightarrow> Tick env q = PlayerUpdateShield env q"
  by (simp add: Tick_def)

text \<open>While the pool lasts, \<open>n\<close> shield ticks cost \<open>n\<close> times 0.05 and stay in SHIELD.\<close>

lemma shield_ticks:
  assumes "currentState q = STATE_SHIELD"
  shows "0 < stamina q - real n * 0.05 \<Longrightarrow>
         currentState ((Tick env ^^ n) q) = STATE_SHIELD
       \<and> stamina ((Tick env ^^ n) q) = stamina q - real n * 0.05"
proof (induction n)
  case 0
  show ?case using assms by simp
next
  case (Suc n)
  have pos: "0 < stamina q - real n * 0.05"
    using Suc.prems by (simp add: algebra_simps)
  note ih = Suc.IH [OF pos]
  have step: "0 < stamina ((Tick env ^^ n) q) - 0.05"
    using Suc.prems ih by (simp add: algebra_simps)
  have "Tick env ((Tick env ^^ n) q) = PlayerUpdateShield env ((Tick env ^^ n) q)"
    using ih by (simp add: Tick_shield)
  with update_shield_holds [OF _ step, of env] ih show ?case
    by (simp add: field_simps)
qed

lemma idle_shield_event:
  assumes "currentState q = STATE_IDLE"
  shows "currentState (Dispatch env q EVENT_SHIELD) = STATE_SHIELD"
    and "stamina (Dispatch env q EVENT_SHIELD) = stamina q"
  using assms
  by (simp_all add: Dispatch_def ChangeState_def TransitionAllowed_def Let_def
      PlayerEnterShield_def PlayerExitIdle_def InitGameObjectAnimation_def print_defs)

text \<open>
  The other ticks named in C2 do keep their pool in range, from any state: the walking
  tick and the attacking tick reset a pool that would drop to 0 or below, and the idle
  tick caps both pools at 100.
\<close>

lemma other_ticks_keep_pools:
  "0 \<le> stamina (PlayerUpdateWalking env p)"
  "0 \<le> mana (PlayerUpdateAttacking env p)"
  "stamina (PlayerUpdateIdle env p) \<le> 100"
  "mana (PlayerUpdateIdle env p) \<le> 100"
proof -
  show "0 \<le> stamina (PlayerUpdateWalking env p)"
  proof (cases "stamina p - 0.05 \<le> 0")
    case True
    then show ?thesis
      by (simp add: walking_tick_depleted ChangeState_Forced_fields_not_respawn)
  next
    case False
    then have pos: "0 < stamina p - 0.05" by simp
    from update_walking_moving [OF pos, of env] obtain q where
      q: "stamina q = stamina p - 0.05"
      and eq: "PlayerUpdateWalking env p
         = (let player = (if health q \<le> 0 then ChangeState env Forced q STATE_DEAD else q)
            in if frameCount (animation player) - 1 \<le> currentFrame (animation player)
               then ChangeState env Forced player STATE_IDLE else player)"
      by blast
    have "stamina (PlayerUpdateWalking env p) = stamina q"
      by (simp add: eq Let_def ChangeState_Forced_fields_not_respawn)
    with q pos show ?thesis by simp
  qed
  show "0 \<le> mana (PlayerUpdateAttacking env p)"
  proof (cases "mana p - 1 \<le> 0")
    case True
    then show ?thesis
      by (simp add: attacking_tick_depleted ChangeState_Forced_fields_not_respawn)
  next
    case False
    then show ?thesis
      by (simp add: attacking_tick_continues)
  qed
  show "stamina (PlayerUpdateIdle env p) \<le> 100"
    by (simp add: PlayerUpdateIdle_def Let_def)
  show "mana (PlayerUpdateIdle env p) \<le> 100"
    by (simp add: PlayerUpdateIdle_def Let_def)
qed

text \<open>
  C2 does not hold of the code: \<open>PlayerUpdateShield\<close> subtracts 0.05 and leaves for IDLE
  when the pool is at most 0, but does not reset it to 0 as \<open>PlayerUpdateWalking\<close> and
  \<open>PlayerUpdateAttacking\<close> do. From the player with full pools: a SHIELD event and 2000
  ticks empty the pool (stamina exactly 0, back in IDLE); a second SHIELD event and one
  tick leave stamina at -0.05. A shielding player with stamina 0.02 ends its tick with
  stamina -0.03.
\<close>

theorem shield_tick_negative_stamina:
  "stamina ((Tick exampleEnv ^^ 2000) (Dispatch exampleEnv examplePlayer EVENT_SHIELD)) = 0
   \<and> currentState ((Tick exampleEnv ^^ 2000) (Dispatch exampleEnv examplePlayer EVENT_SHIELD))
       = STATE_IDLE
   \<and> stamina (Tick exampleEnv (Dispatch exampleEnv
        ((Tick exampleEnv ^^ 2000) (Dispatch exampleEnv examplePlayer EVENT_SHIELD))
        EVENT_SHIELD)) = - 0.05
   \<and> stamina (Tick exampleEnv (Dispatch exampleEnv
        ((Tick exampleEnv ^^ 2000) (Dispatch exampleEnv examplePlayer EVENT_SHIELD))
        EVENT_SHIELD)) < 0
   \<and> stamina (PlayerUpdateShield exampleEnv (shieldingPlayer\<lparr>stamina := 0.02\<rparr>)) = - 0.03"
proof -
  let ?env = exampleEnv
  let ?s0 = "Dispatch ?env examplePlayer EVENT_SHIELD"
  let ?s1 = "(Tick ?env ^^ 1999) ?s0"
  let ?s2 = "(Tick ?env ^^ 2000) ?s0"
  let ?s3 = "Dispatch ?env ?s2 EVENT_SHIELD"
  have idle0: "currentState examplePlayer = STATE_IDLE" "stamina examplePlayer = 100"
    by (simp_all add: examplePlayer_def)
  have s0: "currentState ?s0 = STATE_SHIELD" "stamina ?s0 = 100"
    using idle_shield_event [OF idle0(1), of ?env] idle0(2) by simp_all
  have "0 < stamina ?s0 - real 1999 * 0.05"
    by (simp add: s0)
  from shield_ticks [OF s0(1) this, of ?env]
  have s1: "currentState ?s1 = STATE_SHIELD" "stamina ?s1 = 0.05"
    by (simp_all add: s0)
  have count: "(2000::nat) = Suc 1999"
    by simp
  have "?s2 = Tick ?env ?s1"
    unfolding count by (simp only: funpow.simps o_apply)
  then have s2eq: "?s2 = PlayerUpdateShield ?env ?s1"
    by (simp only: Tick_shield [OF s1(1)])
  have s2: "currentState ?s2 = STATE_IDLE" "stamina ?s2 = 0"
    using update_shield_depleted [of ?s1 ?env] by (simp_all add: s2eq s1)
  have s3: "currentState ?s3 = STATE_SHIELD" "stamina ?s3 = 0"
    using idle_shield_event [OF s2(1), of ?env] s2(2) by simp_all
  have "Tick ?env ?s3 = PlayerUpdateShield ?env ?s3"
    by (rule Tick_shield [OF s3(1)])
  then have s4: "stamina (Tick ?env ?s3) = - 0.05"
    using update_shield_depleted(2) [of ?s3 ?env] by (simp add: s3)
  have direct: "stamina (PlayerUpdateShield ?env (shieldingPlayer\<lparr>stamina := 0.02\<rparr>)) = - 0.03"
    using update_shield_depleted(2) [of "shieldingPlayer\<lparr>stamina := 0.02\<rparr>" ?env]
    by simp
  from s2 s4 direct show ?thesis
    by simp
qed

end
